theory Spec2Isabelle
  imports Main
begin

section \<open>JavaScript values and the host operations the program calls\<close>

text \<open>
  The repository holds two variants of the console: \<^verbatim>\<open>src/src/App.jsx\<close> (graph
  initialization and \<^verbatim>\<open>handleSubmit\<close>) and the \<^verbatim>\<open>App\<close> component in
  \<^verbatim>\<open>src/unnamed/part_000\<close> (graph loader, \<^verbatim>\<open>loadThread\<close>, \<^verbatim>\<open>onRun\<close> and the rendering of
  a step's updates).  Both work on values decoded from JSON.  A value is one of JavaScript's
  primitive values, an array, or a plain object.  An object is the list of its own properties
  in enumeration order, with distinct keys.  Numbers are integers here (of a magnitude that
  \<^verbatim>\<open>String\<close> prints in decimal digits): number literals with a fraction or an exponent are
  outside the model.  A string is the list of its code units, which are below 256 here.
  \<open>Undefined\<close> never occurs inside decoded JSON; it is what reading a missing property
  yields.
\<close>

datatype jsval =
    Undefined
  | Null
  | Bool bool
  | Num int
  | Str string
  | Arr "jsval list"
  | Obj "(string \<times> jsval) list"

text \<open>What the program can throw: a \<^verbatim>\<open>TypeError\<close> (a property read on \<^verbatim>\<open>null\<close> or
  \<^verbatim>\<open>undefined\<close>, a call of something that is no function), the \<^verbatim>\<open>SyntaxError\<close> of
  \<^verbatim>\<open>JSON.parse\<close>, and a rejected \<^verbatim>\<open>fetch\<close> or \<^verbatim>\<open>read\<close>.\<close>

datatype js_error = TypeError | SyntaxError | NetworkError

definition bind_e :: "js_error + 'a \<Rightarrow> ('a \<Rightarrow> js_error + 'b) \<Rightarrow> js_error + 'b" where
  "bind_e r f = (case r of Inl e \<Rightarrow> Inl e | Inr x \<Rightarrow> f x)"

text \<open>\<^verbatim>\<open>xs.map(f)\<close> and \<^verbatim>\<open>xs.forEach(f)\<close> with a callback that may throw: elements are
  visited left to right and the first exception ends the traversal.\<close>

fun map_e :: "('a \<Rightarrow> js_error + 'b) \<Rightarrow> 'a list \<Rightarrow> js_error + 'b list" where
  "map_e f [] = Inr []"
| "map_e f (x # xs) =
     (case f x of
        Inl e \<Rightarrow> Inl e
      | Inr y \<Rightarrow> (case map_e f xs of Inl e \<Rightarrow> Inl e | Inr ys \<Rightarrow> Inr (y # ys)))"

text \<open>Truthiness, as \<^verbatim>\<open>if (v)\<close>, \<^verbatim>\<open>!v\<close>, \<^verbatim>\<open>a || b\<close> and \<^verbatim>\<open>a && b\<close> test it.\<close>

fun truthy :: "jsval \<Rightarrow> bool" where
  "truthy Undefined = False"
| "truthy Null = False"
| "truthy (Bool b) = b"
| "truthy (Num n) = (n \<noteq> 0)"
| "truthy (Str s) = (s \<noteq> [])"
| "truthy (Arr xs) = True"
| "truthy (Obj ps) = True"

definition js_or :: "jsval \<Rightarrow> jsval \<Rightarrow> jsval" where
  "js_or a b = (if truthy a then a else b)"

text \<open>
  \<^verbatim>\<open>v.k\<close> for the property names this program reads by name (\<^verbatim>\<open>nodes\<close>, \<^verbatim>\<open>edges\<close>,
  \<^verbatim>\<open>isStateful\<close>, \<^verbatim>\<open>id\<close>, \<^verbatim>\<open>name\<close>, \<^verbatim>\<open>source\<close>, \<^verbatim>\<open>target\<close>, \<^verbatim>\<open>node\<close>, \<^verbatim>\<open>content\<close>,
  \<^verbatim>\<open>kwargs\<close>, \<^verbatim>\<open>updates\<close>): none of them is an index, \<^verbatim>\<open>length\<close> or a prototype member, so
  on a primitive or an array the read yields \<^verbatim>\<open>undefined\<close>.  On \<^verbatim>\<open>null\<close> and
  \<^verbatim>\<open>undefined\<close> it throws.
\<close>

fun get_prop :: "jsval \<Rightarrow> string \<Rightarrow> js_error + jsval" where
  "get_prop Undefined k = Inl TypeError"
| "get_prop Null k = Inl TypeError"
| "get_prop (Obj ps) k = Inr (case map_of ps k of None \<Rightarrow> Undefined | Some v \<Rightarrow> v)"
| "get_prop (Bool b) k = Inr Undefined"
| "get_prop (Num n) k = Inr Undefined"
| "get_prop (Str s) k = Inr Undefined"
| "get_prop (Arr xs) k = Inr Undefined"

subsection \<open>Strings\<close>

definition startsWith :: "string \<Rightarrow> string \<Rightarrow> bool" where
  "startsWith s p = (take (length p) s = p)"

text \<open>\<^verbatim>\<open>s.includes(p)\<close>: \<open>p\<close> occurs in \<open>s\<close> at some position.\<close>

fun str_includes :: "string \<Rightarrow> string \<Rightarrow> bool" where
  "str_includes [] p = (p = [])"
| "str_includes (c # cs) p = (startsWith (c # cs) p \<or> str_includes cs p)"

text \<open>\<^verbatim>\<open>s.replace(p, r)\<close> with a string pattern: only the first occurrence is replaced.\<close>

fun replace_first :: "string \<Rightarrow> string \<Rightarrow> string \<Rightarrow> string" where
  "replace_first [] p r = (if p = [] then r else [])"
| "replace_first (c # cs) p r =
     (if startsWith (c # cs) p then r @ drop (length p) (c # cs)
      else c # replace_first cs p r)"

text \<open>\<^verbatim>\<open>s.split('\n\n')\<close>: the pieces between successive, non-overlapping occurrences of
  two line feeds, scanning from the left; a string without the separator is one piece.
  The first argument accumulates the current piece, reversed.\<close>

fun split_acc :: "string \<Rightarrow> string \<Rightarrow> string list" where
  "split_acc acc [] = [rev acc]"
| "split_acc acc [c] = [rev (c # acc)]"
| "split_acc acc (c # d # cs) =
     (if c = CHR 0x0A \<and> d = CHR 0x0A then rev acc # split_acc [] cs
      else split_acc (c # acc) (d # cs))"

definition split_frames :: "string \<Rightarrow> string list" where
  "split_frames s = split_acc [] s"

text \<open>\<^verbatim>\<open>s.trim()\<close> is empty iff every character of \<open>s\<close> is white space or a line
  terminator; below 256 these are the characters from tab to carriage return, the space and
  the no-break space.\<close>

definition is_space :: "char \<Rightarrow> bool" where
  "is_space c =
     (c \<in> set [CHR 0x09, CHR 0x0A, CHR 0x0B, CHR 0x0C, CHR 0x0D, CHR 0x20, CHR 0xA0])"

definition blank :: "string \<Rightarrow> bool" where
  "blank s = list_all is_space s"

text \<open>Decimal digits of a natural number, and \<^verbatim>\<open>String(v)\<close>.\<close>

function string_of_nat :: "nat \<Rightarrow> string" where
  "string_of_nat n =
     (if n < 10 then [''0123456789'' ! n]
      else string_of_nat (n div 10) @ [''0123456789'' ! (n mod 10)])"
  by pat_completeness auto
termination
  by (relation "measure (\<lambda>n. n)") auto

declare string_of_nat.simps [simp del]

definition string_of_int :: "int \<Rightarrow> string" where
  "string_of_int i = (if i < 0 then CHR ''-'' # string_of_nat (nat (- i)) else string_of_nat (nat i))"

fun join_comma :: "string list \<Rightarrow> string" where
  "join_comma [] = []"
| "join_comma [s] = s"
| "join_comma (s # t # ss) = s @ CHR '','' # join_comma (t # ss)"

fun to_string :: "jsval \<Rightarrow> string" where
  "to_string Undefined = ''undefined''"
| "to_string Null = ''null''"
| "to_string (Bool b) = (if b then ''true'' else ''false'')"
| "to_string (Num n) = string_of_int n"
| "to_string (Str s) = s"
| "to_string (Arr xs) =
     join_comma (map (\<lambda>x. if x = Undefined \<or> x = Null then [] else to_string x) xs)"
| "to_string (Obj ps) = ''[object Object]''"


subsection \<open>Objects and arrays\<close>

text \<open>The own enumerable properties of a value, as \<^verbatim>\<open>Object.entries\<close> and the spread
  \<^verbatim>\<open>{...v}\<close> enumerate them: an array and a string have their indices, a number and a
  boolean have none.\<close>

definition indexed :: "'a list \<Rightarrow> (string \<times> 'a) list" where
  "indexed xs = zip (map string_of_nat [0..<length xs]) xs"

fun own_entries :: "jsval \<Rightarrow> (string \<times> jsval) list" where
  "own_entries (Obj ps) = ps"
| "own_entries (Arr xs) = indexed xs"
| "own_entries (Str s) = indexed (map (\<lambda>c. Str [c]) s)"
| "own_entries Undefined = []"
| "own_entries Null = []"
| "own_entries (Bool b) = []"
| "own_entries (Num n) = []"

text \<open>\<^verbatim>\<open>Object.entries(v)\<close> and \<^verbatim>\<open>Object.keys(v)\<close> throw on \<^verbatim>\<open>null\<close> and \<^verbatim>\<open>undefined\<close>.\<close>

definition object_entries :: "jsval \<Rightarrow> js_error + (string \<times> jsval) list" where
  "object_entries v = (if v = Undefined \<or> v = Null then Inl TypeError else Inr (own_entries v))"

definition object_keys :: "jsval \<Rightarrow> js_error + string list" where
  "object_keys v = bind_e (object_entries v) (\<lambda>ps. Inr (map fst ps))"

text \<open>Writing a property: an existing key keeps its place and takes the new value, a new
  key goes last.  (The engine's reordering of index-like keys is not modelled; the objects
  built this way are only read by property name.)\<close>

definition obj_put :: "string \<Rightarrow> jsval \<Rightarrow> (string \<times> jsval) list \<Rightarrow> (string \<times> jsval) list" where
  "obj_put k v ps =
     (if k \<in> fst ` set ps then map (\<lambda>(k', v'). if k' = k then (k', v) else (k', v')) ps
      else ps @ [(k, v)])"

text \<open>The object literal \<^verbatim>\<open>{ p1, ..., pn, ...v }\<close>: the properties of \<open>v\<close> are written
  over the ones listed before the spread.  Spreading \<^verbatim>\<open>null\<close> or a number adds nothing.\<close>

definition spread :: "(string \<times> jsval) list \<Rightarrow> jsval \<Rightarrow> jsval" where
  "spread base v = Obj (foldl (\<lambda>ps (k, w). obj_put k w ps) base (own_entries v))"

text \<open>\<^verbatim>\<open>v.forEach(f)\<close>, \<^verbatim>\<open>v.filter(f)\<close>, \<^verbatim>\<open>v.map(f)\<close> on a decoded value: only an array has
  these methods; on anything else the call throws (on \<^verbatim>\<open>undefined\<close> already the
  property read does).\<close>

fun array_elems :: "jsval \<Rightarrow> js_error + jsval list" where
  "array_elems (Arr xs) = Inr xs"
| "array_elems Undefined = Inl TypeError"
| "array_elems Null = Inl TypeError"
| "array_elems (Bool b) = Inl TypeError"
| "array_elems (Num n) = Inl TypeError"
| "array_elems (Str s) = Inl TypeError"
| "array_elems (Obj ps) = Inl TypeError"

text \<open>The method call \<^verbatim>\<open>v.includes(p)\<close> with a string \<open>p\<close>: a string searches for the
  substring, an array for an element identical to \<open>p\<close>; no other decoded value has a callable
  \<^verbatim>\<open>includes\<close>.\<close>

fun js_includes :: "jsval \<Rightarrow> string \<Rightarrow> js_error + bool" where
  "js_includes (Str s) p = Inr (str_includes s p)"
| "js_includes (Arr xs) p = Inr (Str p \<in> set xs)"
| "js_includes Undefined p = Inl TypeError"
| "js_includes Null p = Inl TypeError"
| "js_includes (Bool b) p = Inl TypeError"
| "js_includes (Num n) p = Inl TypeError"
| "js_includes (Obj ps) p = Inl TypeError"

section \<open>Graph loading\<close>

text \<open>
  The layout library's graph (\<^verbatim>\<open>dagre.graphlib.Graph\<close>): nodes are keyed by string (a key
  that is no string is converted as a property key is), an edge is a pair of keys, and
  setting a node or an edge that exists keeps one copy.  The model covers the keys that the
  library's node table treats as plain keys: keys that its lookup reads as a property path
  (a key with a dot or a bracket, the empty key) and the key \<^verbatim>\<open>__proto__\<close> are outside it.
\<close>

record dagre_graph =
  g_nodes :: "string list"
  g_edges :: "(string \<times> string) list"

definition new_graph :: dagre_graph where
  "new_graph = \<lparr>g_nodes = [], g_edges = []\<rparr>"

definition setNode :: "jsval \<Rightarrow> dagre_graph \<Rightarrow> dagre_graph" where
  "setNode v g =
     (if to_string v \<in> set (g_nodes g) then g else g\<lparr>g_nodes := g_nodes g @ [to_string v]\<rparr>)"

definition hasNode :: "dagre_graph \<Rightarrow> string \<Rightarrow> bool" where
  "hasNode g v = (v \<in> set (g_nodes g))"

definition setEdge :: "string \<Rightarrow> string \<Rightarrow> dagre_graph \<Rightarrow> dagre_graph" where
  "setEdge v w g =
     (if (v, w) \<in> set (g_edges g) then g else g\<lparr>g_edges := g_edges g @ [(v, w)]\<rparr>)"

text \<open>\<^verbatim>\<open>dagre.layout(g)\<close> is a parameter of the model: a layout gives the centre of every
  node of the graph (integer coordinates here).  It is taken as total: graphs on which the
  library's layout throws are outside the model.\<close>

type_synonym layout = "dagre_graph \<Rightarrow> string \<Rightarrow> int \<times> int"

text \<open>What is handed to the renderer (\<^verbatim>\<open>setNodes\<close>, \<^verbatim>\<open>setEdges\<close>).\<close>

record flow_node =
  node_id :: jsval
  node_label :: jsval
  node_position :: "int \<times> int"
  node_className :: string

record flow_edge =
  edge_id :: string
  edge_source :: string
  edge_target :: string
  edge_className :: "string option"


text \<open>The state both components keep and that the functions below write.  The console of
  \<^verbatim>\<open>App.jsx\<close> adds the text of its controlled input field; the console of
  \<^verbatim>\<open>part_000\<close> adds the thread id and the \<^verbatim>\<open>isStateful\<close> flag of the graph description.
  (Pane widths, the selected node, the render mode, the thread list and its search text are
  not written by any function modelled here.)\<close>

record app =
  nodes :: "flow_node list"
  edges :: "flow_edge list"
  messages :: "jsval list"
  activeNode :: jsval

record console = app +
  input :: string

record threaded = app +
  currentThreadId :: string
  isStateful :: jsval

subsection \<open>\<^verbatim>\<open>App.jsx\<close>: graph initialization\<close>

definition NODE_WIDTH :: int where "NODE_WIDTH = 200"
definition NODE_HEIGHT :: int where "NODE_HEIGHT = 60"

text \<open>\<^verbatim>\<open>Array.isArray(data.nodes) ? data.nodes
     : Object.entries(data.nodes).map(([id, val]) => ({ id, ...val }))\<close>\<close>

definition rawNodes_init :: "jsval \<Rightarrow> js_error + jsval list" where
  "rawNodes_init data =
     bind_e (get_prop data ''nodes'') (\<lambda>ns.
       case ns of
         Arr xs \<Rightarrow> Inr xs
       | _ \<Rightarrow> bind_e (object_entries ns) (\<lambda>ps.
                Inr (map (\<lambda>(i, val). spread [(''id'', Str i)] val) ps)))"

text \<open>\<^verbatim>\<open>rawNodes.forEach(n => g.setNode(String(n.id), ...))\<close>\<close>

fun setNodes_init :: "jsval list \<Rightarrow> dagre_graph \<Rightarrow> js_error + dagre_graph" where
  "setNodes_init [] g = Inr g"
| "setNodes_init (n # ns) g =
     (case get_prop n ''id'' of
        Inl e \<Rightarrow> Inl e
      | Inr i \<Rightarrow> setNodes_init ns (setNode (Str (to_string i)) g))"

text \<open>\<^verbatim>\<open>String(e.source)\<close> and \<^verbatim>\<open>String(e.target)\<close> of an edge description.\<close>

definition edge_ends :: "jsval \<Rightarrow> js_error + string \<times> string" where
  "edge_ends e =
     bind_e (get_prop e ''source'') (\<lambda>s.
     bind_e (get_prop e ''target'') (\<lambda>t. Inr (to_string s, to_string t)))"

text \<open>\<^verbatim>\<open>data.edges.forEach(e => { if (g.hasNode(String(e.source)) && g.hasNode(String(e.target)))
     g.setEdge(String(e.source), String(e.target)); })\<close>\<close>

fun setEdges_init :: "jsval list \<Rightarrow> dagre_graph \<Rightarrow> js_error + dagre_graph" where
  "setEdges_init [] g = Inr g"
| "setEdges_init (e # es) g =
     (case edge_ends e of
        Inl err \<Rightarrow> Inl err
      | Inr (s, t) \<Rightarrow>
          setEdges_init es (if hasNode g s \<and> hasNode g t then setEdge s t g else g))"

text \<open>One element of \<^verbatim>\<open>rawNodes.map(n => ({ id: String(n.id), data: { label: n.name || n.id },
     position: ..., className: `material-node node-${n.id} ${n.id.includes('__') ? 'virtual' : ''}` }))\<close>\<close>

definition flow_node_init :: "layout \<Rightarrow> dagre_graph \<Rightarrow> jsval \<Rightarrow> js_error + flow_node" where
  "flow_node_init lay g n =
     bind_e (get_prop n ''id'') (\<lambda>i.
     bind_e (get_prop n ''name'') (\<lambda>nm.
     bind_e (js_includes i ''__'') (\<lambda>virtual.
       Inr \<lparr>node_id = Str (to_string i),
            node_label = js_or nm i,
            node_position = (fst (lay g (to_string i)) - NODE_WIDTH div 2,
                             snd (lay g (to_string i)) - NODE_HEIGHT div 2),
            node_className = ''material-node node-'' @ to_string i @ '' '' @
                             (if virtual then ''virtual'' else [])\<rparr>)))"

text \<open>One element of \<^verbatim>\<open>data.edges.map((e, idx) => ({ id: `edge-${idx}`, source: String(e.source),
     target: String(e.target), ..., className: `material-edge edge-from-${e.source}` }))\<close>\<close>

definition flow_edge_init :: "nat \<times> jsval \<Rightarrow> js_error + flow_edge" where
  "flow_edge_init ie =
     bind_e (get_prop (snd ie) ''source'') (\<lambda>s.
     bind_e (get_prop (snd ie) ''target'') (\<lambda>t.
       Inr \<lparr>edge_id = ''edge-'' @ string_of_nat (fst ie),
            edge_source = to_string s,
            edge_target = to_string t,
            edge_className = Some (''material-edge edge-from-'' @ to_string s)\<rparr>))"

text \<open>The body of the callback that receives the decoded graph description, up to the two
  state updates: the node list and the edge list handed to the renderer.\<close>

definition build_init :: "layout \<Rightarrow> jsval \<Rightarrow> js_error + flow_node list \<times> flow_edge list" where
  "build_init lay data =
     bind_e (rawNodes_init data) (\<lambda>rawNodes.
     bind_e (setNodes_init rawNodes new_graph) (\<lambda>g1.
     bind_e (get_prop data ''edges'') (\<lambda>es.
     bind_e (array_elems es) (\<lambda>el.
     bind_e (setEdges_init el g1) (\<lambda>g.
     bind_e (map_e (flow_node_init lay g) rawNodes) (\<lambda>ns.
     bind_e (map_e flow_edge_init (enumerate 0 el)) (\<lambda>fs.
       Inr (ns, fs))))))))"

text \<open>The callback itself: the state after it, and the exception it ended with, if any.\<close>

definition graph_init :: "layout \<Rightarrow> jsval \<Rightarrow> console \<Rightarrow> console \<times> js_error option" where
  "graph_init lay data st =
     (case build_init lay data of
        Inl e \<Rightarrow> (st, Some e)
      | Inr (ns, fs) \<Rightarrow> (st\<lparr>nodes := ns, edges := fs\<rparr>, None))"

subsection \<open>\<^verbatim>\<open>part_000\<close>: graph loader\<close>

definition NODE_WIDTH_t :: int where "NODE_WIDTH_t = 180"
definition NODE_HEIGHT_t :: int where "NODE_HEIGHT_t = 50"

text \<open>\<^verbatim>\<open>Object.entries(data.nodes).map(([id, val]) => ({ id: String(id), ...val }))\<close>\<close>

definition raw_loader :: "jsval \<Rightarrow> js_error + jsval list" where
  "raw_loader data =
     bind_e (get_prop data ''nodes'') (\<lambda>ns.
     bind_e (object_entries ns) (\<lambda>ps.
       Inr (map (\<lambda>(i, val). spread [(''id'', Str (to_string (Str i)))] val) ps)))"

text \<open>\<^verbatim>\<open>raw.forEach(n => g.setNode(n.id, ...))\<close>\<close>

fun setNodes_loader :: "jsval list \<Rightarrow> dagre_graph \<Rightarrow> js_error + dagre_graph" where
  "setNodes_loader [] g = Inr g"
| "setNodes_loader (n # ns) g =
     (case get_prop n ''id'' of
        Inl e \<Rightarrow> Inl e
      | Inr i \<Rightarrow> setNodes_loader ns (setNode i g))"

text \<open>\<^verbatim>\<open>data.edges.filter(e => g.hasNode(String(e.source)) && g.hasNode(String(e.target)))\<close>\<close>

definition valid_edge :: "dagre_graph \<Rightarrow> jsval \<Rightarrow> js_error + bool" where
  "valid_edge g e =
     bind_e (get_prop e ''source'') (\<lambda>s.
       if hasNode g (to_string s)
       then bind_e (get_prop e ''target'') (\<lambda>t. Inr (hasNode g (to_string t)))
       else Inr False)"

fun filter_e :: "('a \<Rightarrow> js_error + bool) \<Rightarrow> 'a list \<Rightarrow> js_error + 'a list" where
  "filter_e p [] = Inr []"
| "filter_e p (x # xs) =
     (case p x of
        Inl e \<Rightarrow> Inl e
      | Inr b \<Rightarrow> (case filter_e p xs of
                   Inl e \<Rightarrow> Inl e
                 | Inr ys \<Rightarrow> Inr (if b then x # ys else ys)))"

text \<open>\<^verbatim>\<open>validEdges.forEach(e => g.setEdge(String(e.source), String(e.target)))\<close>\<close>

fun setEdges_loader :: "jsval list \<Rightarrow> dagre_graph \<Rightarrow> js_error + dagre_graph" where
  "setEdges_loader [] g = Inr g"
| "setEdges_loader (e # es) g =
     (case edge_ends e of
        Inl err \<Rightarrow> Inl err
      | Inr (s, t) \<Rightarrow> setEdges_loader es (setEdge s t g))"

text \<open>One element of \<^verbatim>\<open>raw.map(n => ({ id: n.id, data: { label: n.name || n.id }, position: ...,
     className: `material-node node-${n.id} ${n.id.includes('__') ? 'virtual' : ''}` }))\<close>\<close>

definition flow_node_loader :: "layout \<Rightarrow> dagre_graph \<Rightarrow> jsval \<Rightarrow> js_error + flow_node" where
  "flow_node_loader lay g n =
     bind_e (get_prop n ''id'') (\<lambda>i.
     bind_e (get_prop n ''name'') (\<lambda>nm.
     bind_e (js_includes i ''__'') (\<lambda>virtual.
       Inr \<lparr>node_id = i,
            node_label = js_or nm i,
            node_position = (fst (lay g (to_string i)) - NODE_WIDTH_t div 2,
                             snd (lay g (to_string i)) - NODE_HEIGHT_t div 2),
            node_className = ''material-node node-'' @ to_string i @ '' '' @
                             (if virtual then ''virtual'' else [])\<rparr>)))"

text \<open>One element of \<^verbatim>\<open>validEdges.map((e, i) => ({ id: `e-${i}`, source: String(e.source),
     target: String(e.target), ... }))\<close>\<close>

definition flow_edge_loader :: "nat \<times> jsval \<Rightarrow> js_error + flow_edge" where
  "flow_edge_loader ie =
     bind_e (get_prop (snd ie) ''source'') (\<lambda>s.
     bind_e (get_prop (snd ie) ''target'') (\<lambda>t.
       Inr \<lparr>edge_id = ''e-'' @ string_of_nat (fst ie),
            edge_source = to_string s,
            edge_target = to_string t,
            edge_className = None\<rparr>))"

definition build_loader :: "layout \<Rightarrow> jsval \<Rightarrow> js_error + flow_node list \<times> flow_edge list" where
  "build_loader lay data =
     bind_e (raw_loader data) (\<lambda>raw.
     bind_e (setNodes_loader raw new_graph) (\<lambda>g1.
     bind_e (get_prop data ''edges'') (\<lambda>es.
     bind_e (array_elems es) (\<lambda>el.
     bind_e (filter_e (valid_edge g1) el) (\<lambda>validEdges.
     bind_e (setEdges_loader validEdges g1) (\<lambda>g.
     bind_e (map_e (flow_node_loader lay g) raw) (\<lambda>ns.
     bind_e (map_e flow_edge_loader (enumerate 0 validEdges)) (\<lambda>fs.
       Inr (ns, fs)))))))))"

text \<open>The callback: \<^verbatim>\<open>setIsStateful(data.isStateful)\<close> comes first and stays when a later
  statement throws.\<close>

definition graph_loader :: "layout \<Rightarrow> jsval \<Rightarrow> threaded \<Rightarrow> threaded \<times> js_error option" where
  "graph_loader lay data st =
     (case get_prop data ''isStateful'' of
        Inl e \<Rightarrow> (st, Some e)
      | Inr sf \<Rightarrow>
          (case build_loader lay data of
             Inl e \<Rightarrow> (st\<lparr>isStateful := sf\<rparr>, Some e)
           | Inr (ns, fs) \<Rightarrow> (st\<lparr>isStateful := sf, nodes := ns, edges := fs\<rparr>, None)))"


section \<open>Thread selection (\<^verbatim>\<open>part_000\<close>)\<close>

text \<open>
  \<^verbatim>\<open>const loadThread = (id) => { setCurrentThreadId(id);
     fetch(`/history/${id}`).then(r => r.json()).then(setMessages); }\<close>

  The history request either fails (the request is rejected or the body is no JSON: the last
  callback never runs) or yields the decoded array of steps.  (A body that decodes to
  something else than an array is outside the model, where \<open>messages\<close> is a list.)
\<close>

definition loadThread :: "string \<Rightarrow> js_error + jsval list \<Rightarrow> threaded \<Rightarrow> threaded" where
  "loadThread i history st =
     (case history of
        Inl e \<Rightarrow> st\<lparr>currentThreadId := i\<rparr>
      | Inr steps \<Rightarrow> st\<lparr>currentThreadId := i, messages := steps\<rparr>)"

section \<open>Submitting an input and consuming the stream\<close>

text \<open>\<^verbatim>\<open>JSON.parse\<close> is a parameter of the stream consumers: \<open>None\<close> is its
  \<^verbatim>\<open>SyntaxError\<close>.\<close>

type_synonym json_parser = "string \<Rightarrow> jsval option"

text \<open>
  The answer to \<^verbatim>\<open>POST /chat\<close>: the request is rejected, or a body arrives whose reader
  delivers the given chunks (each already decoded to text by \<^verbatim>\<open>decoder.decode(value)\<close>) and
  then either reports \<^verbatim>\<open>done\<close> or rejects the next \<^verbatim>\<open>read()\<close>.
\<close>

datatype stream_end = Closed | Broken

datatype response = Rejected | Body "string list" stream_end

subsection \<open>\<^verbatim>\<open>App.jsx\<close>: \<^verbatim>\<open>handleSubmit\<close>\<close>

text \<open>\<^verbatim>\<open>Object.keys(data)[0]\<close>: the first own key, \<^verbatim>\<open>undefined\<close> if there is none.\<close>

definition first_key :: "jsval \<Rightarrow> js_error + jsval" where
  "first_key data =
     bind_e (object_keys data) (\<lambda>ks. Inr (case ks of [] \<Rightarrow> Undefined | k # _ \<Rightarrow> Str k))"

text \<open>\<^verbatim>\<open>data[node]\<close> for a key that is an own property of \<open>data\<close> or is \<^verbatim>\<open>undefined\<close>.\<close>

definition get_index :: "jsval \<Rightarrow> jsval \<Rightarrow> js_error + jsval" where
  "get_index data k =
     (if data = Undefined \<or> data = Null then Inl TypeError
      else Inr (case map_of (own_entries data) (to_string k) of None \<Rightarrow> Undefined | Some v \<Rightarrow> v))"

text \<open>The body of the \<^verbatim>\<open>try\<close> block:
  \<^verbatim>\<open>const data = JSON.parse(line.replace('data: ', '')); const node = Object.keys(data)[0];
     setActiveNode(node);
     setMessages(p => [...p, { role: 'assistant', node, content: data[node] }]);\<close>
  No state is written before a statement that can throw.\<close>

definition handleSubmit_try :: "json_parser \<Rightarrow> string \<Rightarrow> console \<Rightarrow> js_error + console" where
  "handleSubmit_try parse line st =
     (case parse (replace_first line ''data: '' []) of
        None \<Rightarrow> Inl SyntaxError
      | Some data \<Rightarrow>
          bind_e (first_key data) (\<lambda>node.
          bind_e (get_index data node) (\<lambda>c.
            Inr (st\<lparr>activeNode := node,
                    messages := messages st @
                      [Obj [(''role'', Str ''assistant''), (''node'', node), (''content'', c)]]\<rparr>))))"

text \<open>The callback of \<^verbatim>\<open>forEach\<close> for one piece of a chunk:
  \<^verbatim>\<open>if (!line.startsWith('data: ')) return;
     if (line.includes('done')) { setActiveNode(null); return; }
     try { ... } catch (err) {}\<close>\<close>

definition handleSubmit_line :: "json_parser \<Rightarrow> string \<Rightarrow> console \<Rightarrow> console" where
  "handleSubmit_line parse line st =
     (if \<not> startsWith line ''data: '' then st
      else if str_includes line ''done'' then st\<lparr>activeNode := Null\<rparr>
      else case handleSubmit_try parse line st of Inl err \<Rightarrow> st | Inr st' \<Rightarrow> st')"

text \<open>\<^verbatim>\<open>decoder.decode(value).split('\n\n').forEach(...)\<close> for one chunk, and the
  \<^verbatim>\<open>while (true)\<close> loop over the chunks the reader delivers.\<close>

definition handleSubmit_chunk :: "json_parser \<Rightarrow> string \<Rightarrow> console \<Rightarrow> console" where
  "handleSubmit_chunk parse chunk st =
     foldl (\<lambda>s line. handleSubmit_line parse line s) st (split_frames chunk)"

definition handleSubmit_read :: "json_parser \<Rightarrow> string list \<Rightarrow> console \<Rightarrow> console" where
  "handleSubmit_read parse chunks st =
     foldl (\<lambda>s chunk. handleSubmit_chunk parse chunk s) st chunks"

text \<open>The statements before \<^verbatim>\<open>await fetch('/chat', ...)\<close>:
  \<^verbatim>\<open>if (!input.trim()) return; const val = input; setInput('');
     setMessages(p => [...p, { role: 'user', content: val }]);\<close>
  \<open>None\<close> is the early return; otherwise the state in which the request is issued, and
  the request body \<^verbatim>\<open>{ input: val }\<close>.\<close>

definition handleSubmit_begin :: "console \<Rightarrow> (console \<times> jsval) option" where
  "handleSubmit_begin st =
     (if blank (input st) then None
      else Some (st\<lparr>input := [],
                    messages := messages st @
                      [Obj [(''role'', Str ''user''), (''content'', Str (input st))]]\<rparr>,
                 Obj [(''input'', Str (input st))]))"

text \<open>After the request: a rejected \<^verbatim>\<open>fetch\<close> or \<^verbatim>\<open>read\<close> ends the function with the state
  reached so far.\<close>

definition handleSubmit_stream :: "json_parser \<Rightarrow> response \<Rightarrow> console \<Rightarrow> console" where
  "handleSubmit_stream parse resp st =
     (case resp of
        Rejected \<Rightarrow> st
      | Body chunks e \<Rightarrow> handleSubmit_read parse chunks st)"

text \<open>The whole handler: the final state and the \<^verbatim>\<open>POST /chat\<close> requests it sent.\<close>

definition handleSubmit :: "json_parser \<Rightarrow> response \<Rightarrow> console \<Rightarrow> console \<times> jsval list" where
  "handleSubmit parse resp st =
     (case handleSubmit_begin st of
        None \<Rightarrow> (st, [])
      | Some (st1, body) \<Rightarrow> (handleSubmit_stream parse resp st1, [body]))"

subsection \<open>\<^verbatim>\<open>part_000\<close>: \<^verbatim>\<open>onRun\<close>\<close>

text \<open>\<^verbatim>\<open>{ node: n, updates: { messages: [{ content: c, role: r }] } }\<close>\<close>

definition step_of :: "jsval \<Rightarrow> jsval \<Rightarrow> string \<Rightarrow> jsval" where
  "step_of n c r =
     Obj [(''node'', n),
          (''updates'', Obj [(''messages'', Arr [Obj [(''content'', c), (''role'', Str r)]])])]"

text \<open>The body of the \<^verbatim>\<open>try\<close> block:
  \<^verbatim>\<open>const data = JSON.parse(line.replace('data: ', ''));
     if (data.node) setActiveNode(data.node);
     if (data.content && data.content !== "...") {
       setMessages(p => [...p, { node: data.node, updates: { messages:
         [{ content: data.content, role: 'assistant' }] } }]); }\<close>
  Only the first read of \<open>data\<close> can throw, before any state is written.\<close>

definition onRun_try :: "json_parser \<Rightarrow> string \<Rightarrow> threaded \<Rightarrow> js_error + threaded" where
  "onRun_try parse line st =
     (case parse (replace_first line ''data: '' []) of
        None \<Rightarrow> Inl SyntaxError
      | Some data \<Rightarrow>
          bind_e (get_prop data ''node'') (\<lambda>n.
          bind_e (get_prop data ''content'') (\<lambda>c.
            Inr ((if truthy n then st\<lparr>activeNode := n\<rparr> else st)
                  \<lparr>messages :=
                     (if truthy c \<and> c \<noteq> Str ''...''
                      then messages st @ [step_of n c ''assistant'']
                      else messages st)\<rparr>))))"

text \<open>\<^verbatim>\<open>if (!line.startsWith('data: ')) return; try { ... } catch(e) {}\<close>\<close>

definition onRun_line :: "json_parser \<Rightarrow> string \<Rightarrow> threaded \<Rightarrow> threaded" where
  "onRun_line parse line st =
     (if \<not> startsWith line ''data: '' then st
      else case onRun_try parse line st of Inl err \<Rightarrow> st | Inr st' \<Rightarrow> st')"

definition onRun_chunk :: "json_parser \<Rightarrow> string \<Rightarrow> threaded \<Rightarrow> threaded" where
  "onRun_chunk parse chunk st =
     foldl (\<lambda>s line. onRun_line parse line s) st (split_frames chunk)"

definition onRun_read :: "json_parser \<Rightarrow> string list \<Rightarrow> threaded \<Rightarrow> threaded" where
  "onRun_read parse chunks st = foldl (\<lambda>s chunk. onRun_chunk parse chunk s) st chunks"

text \<open>The statements before \<^verbatim>\<open>await fetch('/chat', ...)\<close>, for the text \<open>val\<close> of the
  form's input element:
  \<^verbatim>\<open>if (!val) return;
     setMessages(prev => [...prev, { node: 'user', updates: { messages:
       [{ content: val, role: 'user' }] } }]);\<close>
  and the request body \<^verbatim>\<open>{ input: val, threadId: currentThreadId }\<close>.\<close>

definition onRun_begin :: "string \<Rightarrow> threaded \<Rightarrow> (threaded \<times> jsval) option" where
  "onRun_begin val st =
     (if val = [] then None
      else Some (st\<lparr>messages := messages st @ [step_of (Str ''user'') (Str val) ''user'']\<rparr>,
                 Obj [(''input'', Str val), (''threadId'', Str (currentThreadId st))]))"

text \<open>After the request: \<^verbatim>\<open>setActiveNode(null)\<close> follows the loop and is reached only
  when the reader reports \<^verbatim>\<open>done\<close>.\<close>

definition onRun_stream :: "json_parser \<Rightarrow> response \<Rightarrow> threaded \<Rightarrow> threaded" where
  "onRun_stream parse resp st =
     (case resp of
        Rejected \<Rightarrow> st
      | Body chunks Broken \<Rightarrow> onRun_read parse chunks st
      | Body chunks Closed \<Rightarrow> (onRun_read parse chunks st)\<lparr>activeNode := Null\<rparr>)"

definition onRun :: "json_parser \<Rightarrow> string \<Rightarrow> response \<Rightarrow> threaded \<Rightarrow> threaded \<times> jsval list" where
  "onRun parse val resp st =
     (case onRun_begin val st of
        None \<Rightarrow> (st, [])
      | Some (st1, body) \<Rightarrow> (onRun_stream parse resp st1, [body]))"


section \<open>Rendering the updates of a step (\<^verbatim>\<open>part_000\<close>)\<close>

text \<open>\<^verbatim>\<open>const isMessageList = Array.isArray(value) && value.length > 0 &&
     (value[0].content || value[0].kwargs);\<close> as the following \<^verbatim>\<open>if\<close> tests it.\<close>

definition isMessageList :: "jsval \<Rightarrow> js_error + bool" where
  "isMessageList v =
     (case v of
        Arr (m # ms) \<Rightarrow>
          bind_e (get_prop m ''content'') (\<lambda>c.
          bind_e (get_prop m ''kwargs'') (\<lambda>k. Inr (truthy (js_or c k))))
      | _ \<Rightarrow> Inr False)"

text \<open>The three branches of the callback, in the order of the source: the message list,
  then \<^verbatim>\<open>typeof value === 'string'\<close>, then everything else.\<close>

datatype shape = MessageSequence | PlainText | StructuredData

definition classify :: "jsval \<Rightarrow> js_error + shape" where
  "classify v =
     bind_e (isMessageList v) (\<lambda>b.
       Inr (if b then MessageSequence
            else case v of Str s \<Rightarrow> PlainText | _ \<Rightarrow> StructuredData))"

text \<open>\<^verbatim>\<open>m.content || m.kwargs?.content || ""\<close>, the child handed to the Markdown
  renderer for one item of a message list.\<close>

definition optional_content :: "jsval \<Rightarrow> js_error + jsval" where
  "optional_content k = (if k = Undefined \<or> k = Null then Inr Undefined else get_prop k ''content'')"

definition message_text :: "jsval \<Rightarrow> js_error + jsval" where
  "message_text m =
     bind_e (get_prop m ''content'') (\<lambda>c.
     bind_e (get_prop m ''kwargs'') (\<lambda>k.
     bind_e (optional_content k) (\<lambda>kc. Inr (js_or (js_or c kc) (Str [])))))"

text \<open>What one entry \<open>(key, value)\<close> of \<^verbatim>\<open>step.updates\<close> is rendered as: the texts of a
  message list, a labelled string, or labelled data (serialized by \<^verbatim>\<open>JSON.stringify\<close>).\<close>

datatype rendered = Markdown "jsval list" | Labelled string string | Serialized string jsval

definition render_update :: "string \<times> jsval \<Rightarrow> js_error + rendered" where
  "render_update kv =
     bind_e (isMessageList (snd kv)) (\<lambda>b.
       if b then
         bind_e (array_elems (snd kv)) (\<lambda>ms.
         bind_e (map_e message_text ms) (\<lambda>ts. Inr (Markdown ts)))
       else case snd kv of
              Str s \<Rightarrow> Inr (Labelled (fst kv) s)
            | _ \<Rightarrow> Inr (Serialized (fst kv) (snd kv)))"

text \<open>\<^verbatim>\<open>Object.entries(step.updates || {}).map(([key, value]) => ...)\<close>\<close>

definition render_step :: "jsval \<Rightarrow> js_error + rendered list" where
  "render_step step =
     bind_e (get_prop step ''updates'') (\<lambda>u.
       map_e render_update (own_entries (js_or u (Obj []))))"

subsection \<open>The classification and the message text as the specification words them\<close>

text \<open>A value has a field if it is an object with that key.\<close>

definition has_field :: "jsval \<Rightarrow> string \<Rightarrow> bool" where
  "has_field v k = (case v of Obj ps \<Rightarrow> k \<in> fst ` set ps | _ \<Rightarrow> False)"

definition field :: "jsval \<Rightarrow> string \<Rightarrow> jsval option" where
  "field v k = (case v of Obj ps \<Rightarrow> map_of ps k | _ \<Rightarrow> None)"

text \<open>``Exposes \<^verbatim>\<open>content\<close> or \<^verbatim>\<open>kwargs.content\<close>''.\<close>

definition exposes_content :: "jsval \<Rightarrow> bool" where
  "exposes_content m =
     (has_field m ''content'' \<or>
      (case field m ''kwargs'' of None \<Rightarrow> False | Some k \<Rightarrow> has_field k ''content''))"

text \<open>``MessageSequence iff it is a non-empty array whose first element exposes
  \<^verbatim>\<open>content\<close> or \<^verbatim>\<open>kwargs.content\<close>; otherwise PlainText iff it is a primitive string;
  otherwise StructuredData.''\<close>

definition spec_classify :: "jsval \<Rightarrow> shape" where
  "spec_classify v =
     (case v of
        Arr (m # ms) \<Rightarrow> if exposes_content m then MessageSequence else StructuredData
      | Str s \<Rightarrow> PlainText
      | _ \<Rightarrow> StructuredData)"

text \<open>``The item's \<^verbatim>\<open>content\<close> field, falling back to \<^verbatim>\<open>kwargs.content\<close> when
  \<^verbatim>\<open>content\<close> is absent, falling back to empty text when both are absent.''\<close>

definition spec_message_text :: "jsval \<Rightarrow> jsval" where
  "spec_message_text m =
     (case field m ''content'' of
        Some c \<Rightarrow> c
      | None \<Rightarrow>
          (case field m ''kwargs'' of
             None \<Rightarrow> Str []
           | Some k \<Rightarrow> (case field k ''content'' of None \<Rightarrow> Str [] | Some kc \<Rightarrow> kc)))"

section \<open>A reader of JSON texts\<close>

text \<open>
  For the closed examples below, \<^verbatim>\<open>JSON.parse\<close> is instantiated by \<open>json_parse\<close>, a
  recursive-descent reader of the JSON texts built from objects, arrays, strings of printable
  ASCII characters without escapes, integer literals, \<^verbatim>\<open>true\<close>, \<^verbatim>\<open>false\<close>, \<^verbatim>\<open>null\<close> and
  white space.  On these texts it returns the value \<^verbatim>\<open>JSON.parse\<close> returns, with an object's
  keys in enumeration order (index-like keys first, in ascending order; a repeated key keeps
  its first place and its last value), and \<open>None\<close> where \<^verbatim>\<open>JSON.parse\<close> throws.  Texts
  with escapes, fractions, exponents or other characters are outside its domain (it returns
  \<open>None\<close> on them); every general statement below holds for an arbitrary parser.
\<close>

definition is_ws :: "char \<Rightarrow> bool" where
  "is_ws c = (c \<in> set [CHR 0x20, CHR 0x09, CHR 0x0A, CHR 0x0D])"

fun skip_ws :: "string \<Rightarrow> string" where
  "skip_ws [] = []"
| "skip_ws (c # cs) = (if is_ws c then skip_ws cs else c # cs)"

definition is_digit :: "char \<Rightarrow> bool" where
  "is_digit c = (48 \<le> (of_char c :: nat) \<and> (of_char c :: nat) \<le> 57)"

definition nat_of_digits :: "string \<Rightarrow> nat" where
  "nat_of_digits ds = foldl (\<lambda>n c. 10 * n + (of_char c - 48)) 0 ds"

text \<open>The characters of a string literal after its opening quote, up to the closing one.\<close>

fun parse_chars :: "string \<Rightarrow> string \<Rightarrow> (string \<times> string) option" where
  "parse_chars acc [] = None"
| "parse_chars acc (c # cs) =
     (if c = CHR 0x22 then Some (rev acc, cs)
      else if c = CHR 0x5C \<or> (of_char c :: nat) < 32 \<or> 127 < (of_char c :: nat) then None
      else parse_chars (c # acc) cs)"

definition parse_number :: "string \<Rightarrow> (jsval \<times> string) option" where
  "parse_number cs =
     (let neg = startsWith cs ''-'';
          ds = (if neg then tl cs else cs);
          ip = takeWhile is_digit ds;
          rest = dropWhile is_digit ds
      in if ip = [] \<or> (hd ip = CHR ''0'' \<and> length ip > 1) then None
         else if rest \<noteq> [] \<and> hd rest \<in> set ''.eE'' then None
         else Some (Num (if neg then - int (nat_of_digits ip) else int (nat_of_digits ip)), rest))"

definition is_index_key :: "string \<Rightarrow> bool" where
  "is_index_key k =
     (k \<noteq> [] \<and> list_all is_digit k \<and> (k = ''0'' \<or> hd k \<noteq> CHR ''0'') \<and>
      nat_of_digits k < 4294967295)"

definition enum_order :: "(string \<times> jsval) list \<Rightarrow> (string \<times> jsval) list" where
  "enum_order ps =
     sort_key (\<lambda>p. nat_of_digits (fst p)) (filter (\<lambda>p. is_index_key (fst p)) ps) @
     filter (\<lambda>p. \<not> is_index_key (fst p)) ps"

text \<open>What is being read: a value, the rest of an array after the elements collected so
  far, or the rest of an object after the members collected so far.\<close>

datatype pmode = PValue | PElems "jsval list" | PMembers "(string \<times> jsval) list"

type_synonym parser = "pmode \<Rightarrow> string \<Rightarrow> (jsval \<times> string) option"

definition value_step :: "parser \<Rightarrow> string \<Rightarrow> (jsval \<times> string) option" where
  "value_step rec cs =
     (if startsWith cs ''{'' then
        (if startsWith (skip_ws (tl cs)) ''}'' then Some (Obj [], tl (skip_ws (tl cs)))
         else rec (PMembers []) (skip_ws (tl cs)))
      else if startsWith cs ''['' then
        (if startsWith (skip_ws (tl cs)) '']'' then Some (Arr [], tl (skip_ws (tl cs)))
         else rec (PElems []) (skip_ws (tl cs)))
      else if startsWith cs [CHR 0x22] then
        (case parse_chars [] (tl cs) of None \<Rightarrow> None | Some (s, r) \<Rightarrow> Some (Str s, r))
      else if startsWith cs ''true'' then Some (Bool True, drop 4 cs)
      else if startsWith cs ''false'' then Some (Bool False, drop 5 cs)
      else if startsWith cs ''null'' then Some (Null, drop 4 cs)
      else parse_number cs)"

definition elems_step :: "parser \<Rightarrow> jsval list \<Rightarrow> string \<Rightarrow> (jsval \<times> string) option" where
  "elems_step rec acc cs =
     (case rec PValue cs of
        None \<Rightarrow> None
      | Some (v, r) \<Rightarrow>
          (if startsWith (skip_ws r) '','' then
             rec (PElems (acc @ [v])) (skip_ws (tl (skip_ws r)))
           else if startsWith (skip_ws r) '']'' then Some (Arr (acc @ [v]), tl (skip_ws r))
           else None))"

definition members_step ::
    "parser \<Rightarrow> (string \<times> jsval) list \<Rightarrow> string \<Rightarrow> (jsval \<times> string) option" where
  "members_step rec acc cs =
     (if \<not> startsWith cs [CHR 0x22] then None
      else (case parse_chars [] (tl cs) of
              None \<Rightarrow> None
            | Some (k, r1) \<Rightarrow>
                (if \<not> startsWith (skip_ws r1) '':'' then None
                 else (case rec PValue (skip_ws (tl (skip_ws r1))) of
                         None \<Rightarrow> None
                       | Some (v, r2) \<Rightarrow>
                           (if startsWith (skip_ws r2) '','' then
                              rec (PMembers (obj_put k v acc)) (skip_ws (tl (skip_ws r2)))
                            else if startsWith (skip_ws r2) ''}'' then
                              Some (Obj (enum_order (obj_put k v acc)), tl (skip_ws r2))
                            else None)))))"

text \<open>The first argument bounds the depth of nested calls; on a JSON text the depth stays
  below the length of the text.\<close>

primrec parse_json :: "nat \<Rightarrow> parser" where
  "parse_json 0 m cs = None"
| "parse_json (Suc n) m cs =
     (case m of
        PValue \<Rightarrow> value_step (parse_json n) cs
      | PElems acc \<Rightarrow> elems_step (parse_json n) acc cs
      | PMembers acc \<Rightarrow> members_step (parse_json n) acc cs)"

definition json_parse :: json_parser where
  "json_parse s =
     (case parse_json (Suc (length s)) PValue (skip_ws s) of
        None \<Rightarrow> None
      | Some (v, r) \<Rightarrow> if skip_ws r = [] then Some v else None)"


section \<open>Initial states and example inputs\<close>

text \<open>The initial values of the \<^verbatim>\<open>useState\<close> hooks; the thread id of the threaded console is
  \<^verbatim>\<open>`debug-${Date.now()}`\<close>, with the clock reading as a parameter.\<close>

definition initial_console :: console where
  "initial_console =
     \<lparr>nodes = [], edges = [], messages = [], activeNode = Null, input = []\<rparr>"

definition initial_threaded :: "nat \<Rightarrow> threaded" where
  "initial_threaded now =
     \<lparr>nodes = [], edges = [], messages = [], activeNode = Null,
      currentThreadId = ''debug-'' @ string_of_nat now, isStateful = Bool False\<rparr>"

text \<open>\<^verbatim>\<open>{ nodes: [{ id: "A" }], edges: [{ source: "A", target: "Z" }] }\<close>: one node and an
  edge to an id that names no node.\<close>

definition dangling_graph :: jsval where
  "dangling_graph =
     Obj [(''nodes'', Arr [Obj [(''id'', Str ''A'')]]),
          (''edges'', Arr [Obj [(''source'', Str ''A''), (''target'', Str ''Z'')]])]"

text \<open>\<^verbatim>\<open>{ nodes: [{ id: 1 }], edges: [] }\<close>: a node list whose only id is a number.\<close>

definition numeric_id_graph :: jsval where
  "numeric_id_graph = Obj [(''nodes'', Arr [Obj [(''id'', Num 1)]]), (''edges'', Arr [])]"

text \<open>\<^verbatim>\<open>{ nodes: { A: {}, B: {} }, edges: [{ source: "A", target: "B" }] }\<close>, the graph of
  the specification's scenario.\<close>

definition scenario_graph :: jsval where
  "scenario_graph =
     Obj [(''nodes'', Obj [(''A'', Obj []), (''B'', Obj [])]),
          (''edges'', Arr [Obj [(''source'', Str ''A''), (''target'', Str ''B'')]])]"

text \<open>\<^verbatim>\<open>{ nodes: { A: {} } }\<close>: a description without the \<^verbatim>\<open>edges\<close> field.\<close>

definition edgeless_graph :: jsval where
  "edgeless_graph = Obj [(''nodes'', Obj [(''A'', Obj [])])]"

text \<open>The blank-line delimiter, and the chunk that carries the given frames whole, each
  followed by the delimiter.\<close>

definition delimiter :: string where
  "delimiter = [CHR 0x0A, CHR 0x0A]"

definition chunk_of :: "string list \<Rightarrow> string" where
  "chunk_of fs = concat (map (\<lambda>f. f @ delimiter) fs)"

text \<open>A frame of the encoding \<^verbatim>\<open>{<nodeId>: <value>}\<close> whose payload mentions the word
  \<^verbatim>\<open>done\<close>, and the same frame with another payload.\<close>

definition mention_frame :: string where
  \<open>mention_frame = ''data: {"agent":"all done"}''\<close>

definition plain_frame :: string where
  \<open>plain_frame = ''data: {"agent":"all set"}''\<close>

text \<open>A completion frame followed by one more frame, in one chunk.\<close>

definition done_then_frame :: string where
  \<open>done_then_frame = chunk_of [''data: {"done":true}'', ''data: {"agent":"hi"}'']\<close>

text \<open>The frames of the scenario: the sentinel content, a content, the completion frame.\<close>

definition sentinel_frames :: "string list" where
  \<open>sentinel_frames =
     [''data: {"node":"A","content":"..."}'',
      ''data: {"node":"A","content":"hello"}'',
      ''data: {"done":true}'']\<close>

text \<open>A chunk of three frames, the second of which is no JSON.\<close>

definition corrupt_chunk :: string where
  \<open>corrupt_chunk =
     chunk_of [''data: {"node":"A","content":"one"}'', ''data: {oops'',
               ''data: {"node":"B","content":"two"}'']\<close>

text \<open>One frame, and the two chunks that carry it when the network cuts it inside its
  body.\<close>

definition whole_frame :: string where
  \<open>whole_frame = ''data: {"node":"A","content":"hello"}''\<close>





text \<open>The console of \<^verbatim>\<open>App.jsx\<close> with a single space typed into the input field.\<close>

definition blank_console :: console where
  "blank_console = initial_console\<lparr>input := '' ''\<rparr>"

text \<open>A message list whose first item has an empty \<^verbatim>\<open>content\<close> and a \<^verbatim>\<open>kwargs.content\<close>.\<close>

definition empty_content_item :: jsval where
  "empty_content_item =
     Obj [(''content'', Str []), (''kwargs'', Obj [(''content'', Str ''x'')])]"

subsection \<open>Vocabulary of the statements\<close>

text \<open>The value of a field; \<^verbatim>\<open>undefined\<close> when the value is no object or has no such
  key.\<close>

definition lookup :: "jsval \<Rightarrow> string \<Rightarrow> jsval" where
  "lookup v k = (case field v k of None \<Rightarrow> Undefined | Some w \<Rightarrow> w)"

text \<open>A text that can travel as a frame: it does not contain the delimiter and does not
  end with a line feed (which would join the delimiter that follows it).\<close>

definition frame_text :: "string \<Rightarrow> bool" where
  "frame_text f = (\<not> str_includes f delimiter \<and> (f = [] \<or> last f \<noteq> CHR 0x0A))"

text \<open>The first element of a non-empty array.\<close>

definition first_item :: "jsval \<Rightarrow> jsval option" where
  "first_item v = (case v of Arr (m # ms) \<Rightarrow> Some m | _ \<Rightarrow> None)"

section \<open>Properties\<close>

subsection \<open>Auxiliary facts\<close>

lemmas js_defs = bind_e_def js_or_def startsWith_def object_entries_def object_keys_def
  obj_put_def spread_def indexed_def string_of_int_def string_of_nat.simps

lemmas parse_defs = json_parse_def value_step_def elems_step_def members_step_def
  parse_number_def is_ws_def is_digit_def nat_of_digits_def is_index_key_def enum_order_def

lemmas stream_defs = handleSubmit_try_def handleSubmit_line_def handleSubmit_chunk_def
  handleSubmit_read_def handleSubmit_begin_def handleSubmit_stream_def handleSubmit_def
  onRun_try_def onRun_line_def onRun_chunk_def onRun_read_def onRun_begin_def
  onRun_stream_def onRun_def first_key_def get_index_def step_of_def split_frames_def
  blank_def is_space_def delimiter_def chunk_of_def

lemmas graph_defs = new_graph_def setNode_def hasNode_def setEdge_def edge_ends_def
  rawNodes_init_def flow_node_init_def flow_edge_init_def build_init_def graph_init_def
  raw_loader_def valid_edge_def flow_node_loader_def flow_edge_loader_def build_loader_def
  graph_loader_def NODE_WIDTH_def NODE_HEIGHT_def NODE_WIDTH_t_def NODE_HEIGHT_t_def

lemma bind_e_Inr: "bind_e r f = Inr y \<longleftrightarrow> (\<exists>x. r = Inr x \<and> f x = Inr y)"
  by (cases r) (simp_all add: bind_e_def)

lemma map_e_set_src: "map_e f xs = Inr ys \<Longrightarrow> x \<in> set xs \<Longrightarrow> \<exists>y\<in>set ys. f x = Inr y"
  by (induction xs arbitrary: ys) (auto split: sum.splits)

lemma map_e_set_dst: "map_e f xs = Inr ys \<Longrightarrow> y \<in> set ys \<Longrightarrow> \<exists>x\<in>set xs. f x = Inr y"
  by (induction xs arbitrary: ys) (auto split: sum.splits)

lemma filter_e_Inr: "filter_e p xs = Inr ys \<Longrightarrow> x \<in> set ys \<Longrightarrow> p x = Inr True"
  by (induction xs arbitrary: ys) (auto split: sum.splits if_splits)

subsection \<open>Graph loading\<close>

text \<open>The loader of \<^verbatim>\<open>part_000\<close> keeps the edge list closed: the layout graph holds the key
  of every node description, the filter keeps an edge only if both of its ends are keys of
  the layout graph, and the rendered edges are made from the filtered list.\<close>

lemma setNodes_loader_nodes:
  "setNodes_loader ns g = Inr g' \<Longrightarrow>
   set (g_nodes g') =
     set (g_nodes g) \<union> {to_string i |i n. n \<in> set ns \<and> get_prop n ''id'' = Inr i}"
proof (induction ns arbitrary: g)
  case Nil
  then show ?case by simp
next
  case (Cons n ns)
  then obtain i where i: "get_prop n ''id'' = Inr i"
    and rest: "setNodes_loader ns (setNode i g) = Inr g'"
    by (auto split: sum.splits)
  have "set (g_nodes (setNode i g)) = insert (to_string i) (set (g_nodes g))"
    by (auto simp: setNode_def)
  with Cons.IH [OF rest] i show ?case by auto
qed

lemma valid_edge_True:
  "valid_edge g e = Inr True \<Longrightarrow>
   \<exists>s t. get_prop e ''source'' = Inr s \<and> get_prop e ''target'' = Inr t \<and>
         hasNode g (to_string s) \<and> hasNode g (to_string t)"
  by (auto simp: valid_edge_def bind_e_Inr split: if_splits)

lemma flow_edge_loader_ends:
  assumes "flow_edge_loader ie = Inr f"
  shows "\<exists>s t. get_prop (snd ie) ''source'' = Inr s \<and> get_prop (snd ie) ''target'' = Inr t \<and>
               edge_source f = to_string s \<and> edge_target f = to_string t"
proof -
  from assms obtain s t where
    s: "get_prop (snd ie) ''source'' = Inr s" and t: "get_prop (snd ie) ''target'' = Inr t"
    unfolding flow_edge_loader_def bind_e_Inr by blast
  with assms have "f = \<lparr>edge_id = ''e-'' @ string_of_nat (fst ie), edge_source = to_string s,
      edge_target = to_string t, edge_className = None\<rparr>"
    by (simp add: flow_edge_loader_def bind_e_def)
  then have "edge_source f = to_string s \<and> edge_target f = to_string t"
    by simp
  with s t show ?thesis by blast
qed

lemma flow_node_loader_id:
  "flow_node_loader lay g n = Inr f \<Longrightarrow> get_prop n ''id'' = Inr (node_id f)"
  by (auto simp: flow_node_loader_def bind_e_Inr)

lemma build_loader_closed:
  assumes "build_loader lay data = Inr (ns, es)" and "e \<in> set es"
  shows "edge_source e \<in> to_string ` node_id ` set ns \<and>
         edge_target e \<in> to_string ` node_id ` set ns"
proof -
  from assms(1) obtain raw g1 el validEdges g where
    nodes: "setNodes_loader raw new_graph = Inr g1" and
    valid: "filter_e (valid_edge g1) el = Inr validEdges" and
    fnodes: "map_e (flow_node_loader lay g) raw = Inr ns" and
    fedges: "map_e flow_edge_loader (enumerate 0 validEdges) = Inr es"
    by (auto simp: build_loader_def bind_e_Inr)
  have keys: "set (g_nodes g1) \<subseteq> to_string ` node_id ` set ns"
  proof
    fix k assume "k \<in> set (g_nodes g1)"
    with setNodes_loader_nodes [OF nodes] obtain i n where
      k: "k = to_string i" and n: "n \<in> set raw" and i: "get_prop n ''id'' = Inr i"
      by (auto simp: new_graph_def)
    from map_e_set_src [OF fnodes n] obtain f where
      f: "f \<in> set ns" and "flow_node_loader lay g n = Inr f"
      by blast
    with flow_node_loader_id i have "node_id f = i" by fastforce
    with f k show "k \<in> to_string ` node_id ` set ns" by auto
  qed
  from map_e_set_dst [OF fedges assms(2)] obtain ie where
    ie: "ie \<in> set (enumerate 0 validEdges)" and e: "flow_edge_loader ie = Inr e"
    by blast
  from ie have "fst ie < length validEdges" and "snd ie = validEdges ! fst ie"
    by (simp_all add: in_set_enumerate_eq)
  then have "snd ie \<in> set validEdges"
    by (simp only: nth_mem)
  from filter_e_Inr [OF valid this] have "valid_edge g1 (snd ie) = Inr True" .
  from valid_edge_True [OF this] obtain s t where
    st: "get_prop (snd ie) ''source'' = Inr s" "get_prop (snd ie) ''target'' = Inr t"
        "hasNode g1 (to_string s)" "hasNode g1 (to_string t)"
    by blast
  from flow_edge_loader_ends [OF e] st
  have "edge_source e = to_string s" "edge_target e = to_string t" by auto
  with st keys show ?thesis by (auto simp: hasNode_def)
qed

lemma graph_loader_drops_dangling_edge:
  "build_loader lay dangling_graph =
     Inr ([\<lparr>node_id = Str ''A'', node_label = Str ''A'',
             node_position = (fst (lay \<lparr>g_nodes = [''A''], g_edges = []\<rparr> ''A'') - 90,
                              snd (lay \<lparr>g_nodes = [''A''], g_edges = []\<rparr> ''A'') - 25),
             node_className = ''material-node node-A ''\<rparr>],
          [])"
  by (simp add: dangling_graph_def js_defs graph_defs enumerate_eq_zip)

text \<open>Both loaders on the graph of the scenario: the nodes \<open>A\<close> and \<open>B\<close> in this order,
  and the edge from \<open>A\<close> to \<open>B\<close>.\<close>

lemma scenario_graph_loaded:
  "map_sum id (\<lambda>(ns, es). (map node_id ns, map (\<lambda>e. (edge_source e, edge_target e)) es))
     (build_init lay scenario_graph) = Inr ([Str ''A'', Str ''B''], [(''A'', ''B'')]) \<and>
   map_sum id (\<lambda>(ns, es). (map node_id ns, map (\<lambda>e. (edge_source e, edge_target e)) es))
     (build_loader lay scenario_graph) = Inr ([Str ''A'', Str ''B''], [(''A'', ''B'')])"
  by (simp add: scenario_graph_def js_defs graph_defs enumerate_eq_zip)

text \<open>
  \<^bold>\<open>C1\<close> (every edge handed to the renderer has both ends among the rendered node ids; an
  edge to an unknown id is dropped).  The graph initialization of \<^verbatim>\<open>App.jsx\<close> applies the
  test \<^verbatim>\<open>g.hasNode(...)\<close> only when it fills the layout graph; the edge list it hands to the
  renderer is made from all of \<^verbatim>\<open>data.edges\<close>.  For the description with the single node
  \<open>A\<close> and the edge from \<open>A\<close> to \<open>Z\<close> the layout graph has no edge, and the rendered edge
  list still holds the edge to \<open>Z\<close>, which is no rendered node.
\<close>

theorem graph_init_renders_dangling_edge:
  "build_init lay dangling_graph =
     Inr ([\<lparr>node_id = Str ''A'', node_label = Str ''A'',
             node_position = (fst (lay \<lparr>g_nodes = [''A''], g_edges = []\<rparr> ''A'') - 100,
                              snd (lay \<lparr>g_nodes = [''A''], g_edges = []\<rparr> ''A'') - 30),
             node_className = ''material-node node-A ''\<rparr>],
          [\<lparr>edge_id = ''edge-0'', edge_source = ''A'', edge_target = ''Z'',
             edge_className = Some ''material-edge edge-from-A''\<rparr>])"
  by (simp add: dangling_graph_def js_defs graph_defs enumerate_eq_zip)

text \<open>A description without \<^verbatim>\<open>edges\<close> ends both loaders at \<^verbatim>\<open>data.edges.forEach\<close>
  and \<^verbatim>\<open>data.edges.filter\<close>: there is no default for an absent field.\<close>

lemma graph_loading_throws_without_edges:
  "graph_init lay edgeless_graph st = (st, Some TypeError) \<and>
   graph_loader lay edgeless_graph st' = (st'\<lparr>isStateful := Undefined\<rparr>, Some TypeError)"
  by (simp add: edgeless_graph_def js_defs graph_defs)

text \<open>
  \<^bold>\<open>C8\<close> (graph loading raises no error on malformed input, ids that are no strings
  included).  Both loaders convert the id with \<^verbatim>\<open>String(...)\<close> where they use it as a key,
  and both call \<^verbatim>\<open>n.id.includes('__')\<close> on the id as it came: for the node list
  \<^verbatim>\<open>[{ id: 1 }]\<close> the call throws a \<^verbatim>\<open>TypeError\<close>, and neither nodes nor edges are set.
\<close>

theorem graph_loading_throws_on_numeric_id:
  "graph_init lay numeric_id_graph st = (st, Some TypeError) \<and>
   graph_loader lay numeric_id_graph st' = (st'\<lparr>isStateful := Undefined\<rparr>, Some TypeError)"
  by (simp add: numeric_id_graph_def js_defs graph_defs enumerate_eq_zip)

subsection \<open>Thread selection\<close>

text \<open>
  \<^bold>\<open>C6\<close>, as the code has it: \<^verbatim>\<open>loadThread(id)\<close> sets the current thread id, and when the
  history arrives it replaces the steps wholesale by it; it does not write the active node,
  which keeps the value it had.  When the history request fails, the steps stay as they were.
\<close>

theorem loadThread_replaces_steps:
  "currentThreadId (loadThread i (Inr steps) st) = i \<and>
   messages (loadThread i (Inr steps) st) = steps \<and>
   activeNode (loadThread i (Inr steps) st) = activeNode st \<and>
   currentThreadId (loadThread i (Inl e) st) = i \<and>
   messages (loadThread i (Inl e) st) = messages st \<and>
   activeNode (loadThread i (Inl e) st) = activeNode st"
  by (simp add: loadThread_def)

text \<open>\<^bold>\<open>C6\<close> as stated fails: selecting a thread while node \<open>A\<close> is active leaves \<open>A\<close> active,
  although the history \<open>[s1, s2]\<close> has replaced the steps.\<close>

theorem loadThread_keeps_activeNode:
  "messages (loadThread ''t2'' (Inr [Str ''s1'', Str ''s2''])
      ((initial_threaded 0)\<lparr>messages := [Str ''s0''], activeNode := Str ''A''\<rparr>)) =
     [Str ''s1'', Str ''s2''] \<and>
   activeNode (loadThread ''t2'' (Inr [Str ''s1'', Str ''s2''])
      ((initial_threaded 0)\<lparr>messages := [Str ''s0''], activeNode := Str ''A''\<rparr>)) \<noteq> Null"
  by (simp add: loadThread_def initial_threaded_def)


subsection \<open>Splitting a chunk into frames\<close>

lemma split_acc_frame:
  "frame_text f \<Longrightarrow>
   split_acc acc (f @ CHR 0x0A # CHR 0x0A # rest) = (rev acc @ f) # split_acc [] rest"
proof (induction f arbitrary: acc)
  case Nil
  then show ?case by simp
next
  case (Cons c f)
  show ?case
  proof (cases f)
    case Nil
    with Cons.prems show ?thesis by (simp add: frame_text_def)
  next
    case (Cons d f')
    from Cons.prems have "\<not> (c = CHR 0x0A \<and> d = CHR 0x0A)" and "frame_text f"
      unfolding Cons by (auto simp: frame_text_def delimiter_def startsWith_def)
    with Cons.IH [of "c # acc"] show ?thesis
      unfolding Cons by simp
  qed
qed

lemma split_acc_frames:
  "\<forall>f\<in>set fs. frame_text f \<Longrightarrow> split_acc [] (chunk_of fs) = fs @ [[]]"
  by (induction fs) (simp_all add: chunk_of_def delimiter_def split_acc_frame)

text \<open>A chunk of whole frames splits into these frames and a last, empty piece.\<close>

lemma split_frames_chunk_of:
  "\<forall>f\<in>set fs. frame_text f \<Longrightarrow> split_frames (chunk_of fs) = fs @ [[]]"
  by (simp add: split_frames_def split_acc_frames)

subsection \<open>The stream consumers, frame by frame\<close>

lemma onRun_line_empty: "onRun_line parse [] st = st"
  by (simp add: onRun_line_def startsWith_def)

lemma handleSubmit_line_empty: "handleSubmit_line parse [] st = st"
  by (simp add: handleSubmit_line_def startsWith_def)

lemma onRun_line_unparsed:
  "parse (replace_first line ''data: '' []) = None \<Longrightarrow> onRun_line parse line st = st"
  by (simp add: onRun_line_def onRun_try_def)

lemma handleSubmit_line_unparsed:
  "parse (replace_first line ''data: '' []) = None \<Longrightarrow>
   messages (handleSubmit_line parse line st) = messages st"
  by (simp add: handleSubmit_line_def handleSubmit_try_def)

text \<open>The steps \<^verbatim>\<open>handleSubmit\<close> appends do not depend on the active node.\<close>

lemma handleSubmit_line_messages_cong:
  "messages st = messages st' \<Longrightarrow>
   messages (handleSubmit_line parse line st) = messages (handleSubmit_line parse line st')"
  by (auto simp: handleSubmit_line_def handleSubmit_try_def bind_e_def
      split: option.splits sum.splits)

lemma handleSubmit_lines_messages_cong:
  "messages st = messages st' \<Longrightarrow>
   messages (foldl (\<lambda>s l. handleSubmit_line parse l s) st ls) =
   messages (foldl (\<lambda>s l. handleSubmit_line parse l s) st' ls)"
proof (induction ls arbitrary: st st')
  case Nil
  then show ?case by simp
next
  case (Cons l ls)
  from Cons.prems
  have "messages (handleSubmit_line parse l st) = messages (handleSubmit_line parse l st')"
    by (rule handleSubmit_line_messages_cong)
  from Cons.IH [OF this] show ?case by simp
qed

lemma handleSubmit_read_messages_cong:
  "messages st = messages st' \<Longrightarrow>
   messages (handleSubmit_read parse cs st) = messages (handleSubmit_read parse cs st')"
proof (induction cs arbitrary: st st')
  case Nil
  then show ?case by (simp add: handleSubmit_read_def)
next
  case (Cons ch cs)
  from Cons.prems
  have "messages (handleSubmit_chunk parse ch st) = messages (handleSubmit_chunk parse ch st')"
    unfolding handleSubmit_chunk_def by (rule handleSubmit_lines_messages_cong)
  from Cons.IH [OF this] show ?case by (simp add: handleSubmit_read_def)
qed



text \<open>Steps are only ever appended.\<close>

lemma onRun_line_appends: "\<exists>more. messages (onRun_line parse line st) = messages st @ more"
  by (auto simp: onRun_line_def onRun_try_def bind_e_def split: option.splits sum.splits)

lemma onRun_lines_append:
  "\<exists>more. messages (foldl (\<lambda>s l. onRun_line parse l s) st ls) = messages st @ more"
proof (induction ls arbitrary: st)
  case Nil
  then show ?case by simp
next
  case (Cons l ls)
  obtain m1 where m1: "messages (onRun_line parse l st) = messages st @ m1"
    using onRun_line_appends by blast
  obtain m2 where
    "messages (foldl (\<lambda>s l. onRun_line parse l s) (onRun_line parse l st) ls) =
       messages (onRun_line parse l st) @ m2"
    using Cons.IH by blast
  with m1 show ?case by simp
qed

lemma onRun_read_appends:
  "\<exists>more. messages (onRun_read parse chunks st) = messages st @ more"
proof (induction chunks arbitrary: st)
  case Nil
  then show ?case by (simp add: onRun_read_def)
next
  case (Cons ch chunks)
  obtain m1 where m1: "messages (onRun_chunk parse ch st) = messages st @ m1"
    unfolding onRun_chunk_def using onRun_lines_append by blast
  obtain m2 where
    "messages (onRun_read parse chunks (onRun_chunk parse ch st)) =
       messages (onRun_chunk parse ch st) @ m2"
    using Cons.IH by blast
  with m1 show ?case by (simp add: onRun_read_def)
qed

lemma handleSubmit_line_appends:
  "\<exists>more. messages (handleSubmit_line parse line st) = messages st @ more"
  by (auto simp: handleSubmit_line_def handleSubmit_try_def bind_e_def
      split: option.splits sum.splits)

lemma handleSubmit_lines_append:
  "\<exists>more. messages (foldl (\<lambda>s l. handleSubmit_line parse l s) st ls) = messages st @ more"
proof (induction ls arbitrary: st)
  case Nil
  then show ?case by simp
next
  case (Cons l ls)
  obtain m1 where m1: "messages (handleSubmit_line parse l st) = messages st @ m1"
    using handleSubmit_line_appends by blast
  obtain m2 where
    "messages (foldl (\<lambda>s l. handleSubmit_line parse l s) (handleSubmit_line parse l st) ls) =
       messages (handleSubmit_line parse l st) @ m2"
    using Cons.IH by blast
  with m1 show ?case by simp
qed

lemma handleSubmit_read_appends:
  "\<exists>more. messages (handleSubmit_read parse chunks st) = messages st @ more"
proof (induction chunks arbitrary: st)
  case Nil
  then show ?case by (simp add: handleSubmit_read_def)
next
  case (Cons ch chunks)
  obtain m1 where m1: "messages (handleSubmit_chunk parse ch st) = messages st @ m1"
    unfolding handleSubmit_chunk_def using handleSubmit_lines_append by blast
  obtain m2 where
    "messages (handleSubmit_read parse chunks (handleSubmit_chunk parse ch st)) =
       messages (handleSubmit_chunk parse ch st) @ m2"
    using Cons.IH by blast
  with m1 show ?case by (simp add: handleSubmit_read_def)
qed

text \<open>Chunks that carry whole frames are consumed like the sequence of their frames.\<close>

lemma onRun_chunk_whole:
  "\<forall>f\<in>set fs. frame_text f \<Longrightarrow>
   onRun_chunk parse (chunk_of fs) st = foldl (\<lambda>s l. onRun_line parse l s) st fs"
  by (simp add: onRun_chunk_def split_frames_chunk_of onRun_line_empty)

lemma handleSubmit_chunk_whole:
  "\<forall>f\<in>set fs. frame_text f \<Longrightarrow>
   handleSubmit_chunk parse (chunk_of fs) st = foldl (\<lambda>s l. handleSubmit_line parse l s) st fs"
  by (simp add: handleSubmit_chunk_def split_frames_chunk_of handleSubmit_line_empty)

lemma onRun_read_whole:
  "\<forall>fs\<in>set fss. \<forall>f\<in>set fs. frame_text f \<Longrightarrow>
   onRun_read parse (map chunk_of fss) st = foldl (\<lambda>s l. onRun_line parse l s) st (concat fss)"
proof (induction fss arbitrary: st)
  case Nil
  then show ?case by (simp add: onRun_read_def)
next
  case (Cons fs fss)
  then have "onRun_read parse (map chunk_of fss) (onRun_chunk parse (chunk_of fs) st) =
     foldl (\<lambda>s l. onRun_line parse l s) (onRun_chunk parse (chunk_of fs) st) (concat fss)"
    by simp
  moreover from Cons.prems
  have "onRun_chunk parse (chunk_of fs) st = foldl (\<lambda>s l. onRun_line parse l s) st fs"
    by (simp add: onRun_chunk_whole)
  ultimately show ?case by (simp add: onRun_read_def)
qed


subsection \<open>Completion frames\<close>

text \<open>The consumer of \<^verbatim>\<open>part_000\<close> has no completion frame: \<^verbatim>\<open>{"done":true}\<close> has neither
  \<^verbatim>\<open>node\<close> nor \<^verbatim>\<open>content\<close> and leaves the state as it is; the active node is cleared
  after the loop.  In \<^verbatim>\<open>App.jsx\<close> the \<^verbatim>\<open>return\<close> after \<^verbatim>\<open>setActiveNode(null)\<close> leaves the
  callback of \<^verbatim>\<open>forEach\<close> only: the frames that follow are still consumed.\<close>

lemma onRun_ignores_done_frame:
  \<open>onRun_line json_parse ''data: {"done":true}'' st = st\<close>
  by (simp add: stream_defs js_defs parse_defs)

lemma handleSubmit_continues_after_done:
  \<open>handleSubmit_chunk json_parse done_then_frame st =
     st\<lparr>activeNode := Str ''agent'',
        messages := messages st @
          [Obj [(''role'', Str ''assistant''), (''node'', Str ''agent''),
                (''content'', Str ''hi'')]]\<rparr>\<close>
  by (simp add: done_then_frame_def stream_defs js_defs parse_defs)

text \<open>
  \<^bold>\<open>C3\<close> (exactly the frames that signal completion clear the active node and emit no
  event; a frame that merely mentions completion is decoded normally).  \<^verbatim>\<open>App.jsx\<close> takes
  every frame whose text contains \<^verbatim>\<open>done\<close> for the completion frame.  The frame
  \<^verbatim>\<open>data: {"agent":"all done"}\<close> is well-formed and signals nothing, yet it clears the active
  node and appends no step, whatever \<^verbatim>\<open>JSON.parse\<close> does; the same frame with the payload
  \<^verbatim>\<open>"all set"\<close> activates node \<open>agent\<close> and appends its step.
\<close>

theorem handleSubmit_drops_frame_mentioning_done:
  \<open>json_parse ''{"agent":"all done"}'' = Some (Obj [(''agent'', Str ''all done'')]) \<and>
   handleSubmit_line parse mention_frame st = st\<lparr>activeNode := Null\<rparr> \<and>
   handleSubmit_read parse [chunk_of [mention_frame]] st = st\<lparr>activeNode := Null\<rparr> \<and>
   handleSubmit_line json_parse plain_frame st =
     st\<lparr>activeNode := Str ''agent'',
        messages := messages st @
          [Obj [(''role'', Str ''assistant''), (''node'', Str ''agent''),
                (''content'', Str ''all set'')]]\<rparr>\<close>
proof -
  have \<open>json_parse ''{"agent":"all done"}'' = Some (Obj [(''agent'', Str ''all done'')])\<close>
    by (simp add: parse_defs js_defs)
  moreover have line: "handleSubmit_line parse mention_frame st = st\<lparr>activeNode := Null\<rparr>"
    by (simp add: mention_frame_def handleSubmit_line_def startsWith_def)
  moreover have "frame_text mention_frame"
    by (simp add: mention_frame_def frame_text_def delimiter_def startsWith_def)
  then have "handleSubmit_read parse [chunk_of [mention_frame]] st = st\<lparr>activeNode := Null\<rparr>"
    using line by (simp add: handleSubmit_read_def handleSubmit_chunk_whole)
  moreover have \<open>handleSubmit_line json_parse plain_frame st =
     st\<lparr>activeNode := Str ''agent'',
        messages := messages st @
          [Obj [(''role'', Str ''assistant''), (''node'', Str ''agent''),
                (''content'', Str ''all set'')]]\<rparr>\<close>
    by (simp add: plain_frame_def stream_defs js_defs parse_defs)
  ultimately show ?thesis by simp
qed

subsection \<open>The sentinel scenario\<close>

lemma sentinel_frames_text: "f \<in> set sentinel_frames \<Longrightarrow> frame_text f"
  by (auto simp: sentinel_frames_def frame_text_def delimiter_def startsWith_def)

lemma sentinel_frames_run:
  "foldl (\<lambda>s l. onRun_line json_parse l s) st sentinel_frames =
     st\<lparr>activeNode := Str ''A'',
        messages := messages st @ [step_of (Str ''A'') (Str ''hello'') ''assistant'']\<rparr>"
  by (simp add: sentinel_frames_def stream_defs js_defs parse_defs)

text \<open>
  \<^bold>\<open>C4\<close>, as the code has it: for every delivery of the three frames of the scenario in
  chunks of whole frames (each frame followed by the delimiter; the frames grouped into
  chunks in any way), the consumer of \<^verbatim>\<open>part_000\<close> (\<^verbatim>\<open>onRun\<close>), which decodes the encoding
  \<^verbatim>\<open>{node, content}\<close>, appends exactly one step, the one with the content \<^verbatim>\<open>hello\<close>, and
  ends with no active node; the whole handler, for a non-empty input, appends the user's
  step before it.
\<close>

theorem onRun_sentinel_scenario:
  assumes "concat fss = sentinel_frames" and "val \<noteq> []"
  shows
   "onRun_stream json_parse (Body (map chunk_of fss) Closed) st =
     st\<lparr>messages := messages st @ [step_of (Str ''A'') (Str ''hello'') ''assistant''],
        activeNode := Null\<rparr> \<and>
    fst (onRun json_parse val (Body (map chunk_of fss) Closed) st) =
     st\<lparr>messages := messages st @
          [step_of (Str ''user'') (Str val) ''user'',
           step_of (Str ''A'') (Str ''hello'') ''assistant''],
        activeNode := Null\<rparr>"
proof -
  have "\<forall>fs\<in>set fss. \<forall>f\<in>set fs. frame_text f"
  proof (intro ballI)
    fix fs f assume "fs \<in> set fss" and "f \<in> set fs"
    then have "f \<in> set (concat fss)" by auto
    with assms(1) show "frame_text f" by (simp add: sentinel_frames_text)
  qed
  then have "onRun_read json_parse (map chunk_of fss) s =
      foldl (\<lambda>s l. onRun_line json_parse l s) s sentinel_frames" for s
    using assms(1) by (simp add: onRun_read_whole)
  then have read: "onRun_read json_parse (map chunk_of fss) s =
     s\<lparr>activeNode := Str ''A'',
        messages := messages s @ [step_of (Str ''A'') (Str ''hello'') ''assistant'']\<rparr>" for s
    by (simp add: sentinel_frames_run)
  with assms(2) show ?thesis
    by (simp add: onRun_stream_def onRun_def onRun_begin_def)
qed

text \<open>Instances: the first frame alone and the other two together; all three in one
  chunk; one frame per chunk, with the input \<open>hi\<close>.\<close>

theorem onRun_sentinel_scenario_witness:
  \<open>onRun_stream json_parse
      (Body [chunk_of [''data: {"node":"A","content":"..."}''],
             chunk_of [''data: {"node":"A","content":"hello"}'', ''data: {"done":true}'']]
         Closed) (initial_threaded 0) =
     (initial_threaded 0)\<lparr>messages := [step_of (Str ''A'') (Str ''hello'') ''assistant'']\<rparr> \<and>
   onRun_stream json_parse (Body [chunk_of sentinel_frames] Closed) (initial_threaded 0) =
     (initial_threaded 0)\<lparr>messages := [step_of (Str ''A'') (Str ''hello'') ''assistant'']\<rparr> \<and>
   fst (onRun json_parse ''hi'' (Body (map (\<lambda>f. chunk_of [f]) sentinel_frames) Closed)
          (initial_threaded 0)) =
     (initial_threaded 0)\<lparr>messages :=
        [step_of (Str ''user'') (Str ''hi'') ''user'',
         step_of (Str ''A'') (Str ''hello'') ''assistant'']\<rparr>\<close>
proof -
  have val: "''hi'' \<noteq> []" by simp
  have g1: \<open>concat [[''data: {"node":"A","content":"..."}''],
      [''data: {"node":"A","content":"hello"}'', ''data: {"done":true}'']] = sentinel_frames\<close>
    by (simp add: sentinel_frames_def)
  have g2: "concat [sentinel_frames] = sentinel_frames" by simp
  have g3: "concat (map (\<lambda>f. [f]) sentinel_frames) = sentinel_frames"
    by (simp add: sentinel_frames_def)
  from onRun_sentinel_scenario [OF g1 val, of "initial_threaded 0"]
       onRun_sentinel_scenario [OF g2 val, of "initial_threaded 0"]
       onRun_sentinel_scenario [OF g3 val, of "initial_threaded 0"]
  show ?thesis
    by (simp add: initial_threaded_def comp_def sentinel_frames_def)
qed

text \<open>\<^bold>\<open>C4\<close> as stated fails for the consumer of \<^verbatim>\<open>App.jsx\<close> (\<^verbatim>\<open>handleSubmit\<close>), which
  takes the first key of a frame for the node id and has no sentinel: the two frames with
  the key \<^verbatim>\<open>node\<close> become two steps of a node called \<open>node\<close>, the first of them made from
  the sentinel frame.\<close>

theorem handleSubmit_sentinel_scenario:
  "handleSubmit_stream json_parse (Body [chunk_of sentinel_frames] Closed) initial_console =
     initial_console\<lparr>messages :=
         [Obj [(''role'', Str ''assistant''), (''node'', Str ''node''), (''content'', Str ''A'')],
          Obj [(''role'', Str ''assistant''), (''node'', Str ''node''), (''content'', Str ''A'')]],
       activeNode := Null\<rparr>"
  by (simp add: sentinel_frames_def stream_defs js_defs parse_defs initial_console_def)

subsection \<open>Malformed frames\<close>

text \<open>
  \<^bold>\<open>C5\<close> (a frame that is no JSON emits nothing and does not end the processing; the frames
  after it are still decoded, in order; decoding does not throw).  The consumers are total
  functions: the \<^verbatim>\<open>catch\<close> turns every exception of the \<^verbatim>\<open>try\<close> block into the unchanged
  state.  If a chunk of the stream splits into the frames \<open>pre\<close>, a frame \<open>bad\<close> that
  \<^verbatim>\<open>JSON.parse\<close> rejects, and the frames \<open>post\<close>, then \<^verbatim>\<open>onRun\<close> ends in the state in which
  it ends without the frame \<open>bad\<close>, and \<^verbatim>\<open>handleSubmit\<close> ends with the steps with which it
  ends without it (there a malformed frame that contains \<^verbatim>\<open>done\<close> clears the active node).
\<close>

theorem malformed_frame_is_dropped:
  assumes "parse (replace_first bad ''data: '' []) = None"
    and "split_frames chunk = pre @ bad # post"
  shows "onRun_read parse (before @ chunk # after) st =
           onRun_read parse after
             (foldl (\<lambda>s l. onRun_line parse l s) (onRun_read parse before st) (pre @ post)) \<and>
         messages (handleSubmit_read parse (before @ chunk # after) c) =
           messages (handleSubmit_read parse after
             (foldl (\<lambda>s l. handleSubmit_line parse l s)
                (handleSubmit_read parse before c) (pre @ post)))"
proof -
  have "onRun_chunk parse chunk s = foldl (\<lambda>s l. onRun_line parse l s) s (pre @ post)" for s
    using assms by (simp add: onRun_chunk_def onRun_line_unparsed)
  then have run: "onRun_read parse (before @ chunk # after) st =
           onRun_read parse after
             (foldl (\<lambda>s l. onRun_line parse l s) (onRun_read parse before st) (pre @ post))"
    by (simp add: onRun_read_def)
  let ?c1 = "handleSubmit_read parse before c"
  let ?mid = "foldl (\<lambda>s l. handleSubmit_line parse l s) ?c1 pre"
  have "messages (handleSubmit_line parse bad ?mid) = messages ?mid"
    using assms(1) by (rule handleSubmit_line_unparsed)
  then have
    "messages (foldl (\<lambda>s l. handleSubmit_line parse l s) (handleSubmit_line parse bad ?mid) post) =
     messages (foldl (\<lambda>s l. handleSubmit_line parse l s) ?mid post)"
    by (rule handleSubmit_lines_messages_cong)
  then have "messages (handleSubmit_chunk parse chunk ?c1) =
           messages (foldl (\<lambda>s l. handleSubmit_line parse l s) ?c1 (pre @ post))"
    using assms(2) by (simp add: handleSubmit_chunk_def)
  then have "messages (handleSubmit_read parse after (handleSubmit_chunk parse chunk ?c1)) =
      messages (handleSubmit_read parse after
        (foldl (\<lambda>s l. handleSubmit_line parse l s) ?c1 (pre @ post)))"
    by (rule handleSubmit_read_messages_cong)
  then have "messages (handleSubmit_read parse (before @ chunk # after) c) =
           messages (handleSubmit_read parse after
             (foldl (\<lambda>s l. handleSubmit_line parse l s) ?c1 (pre @ post)))"
    by (simp add: handleSubmit_read_def)
  with run show ?thesis by simp
qed

text \<open>An instance: of the three frames of \<open>corrupt_chunk\<close> the second is rejected, and the
  steps of the first and of the third are appended, in this order.\<close>

theorem malformed_frame_is_dropped_witness:
  \<open>json_parse ''{oops'' = None \<and>
   onRun_read json_parse [corrupt_chunk] (initial_threaded 0) =
     (initial_threaded 0)\<lparr>activeNode := Str ''B'',
        messages := [step_of (Str ''A'') (Str ''one'') ''assistant'',
                     step_of (Str ''B'') (Str ''two'') ''assistant'']\<rparr> \<and>
   messages (handleSubmit_read json_parse [corrupt_chunk] initial_console) =
     [Obj [(''role'', Str ''assistant''), (''node'', Str ''node''), (''content'', Str ''A'')],
      Obj [(''role'', Str ''assistant''), (''node'', Str ''node''), (''content'', Str ''B'')]]\<close>
proof -
  have bad: \<open>json_parse (replace_first ''data: {oops'' ''data: '' []) = None\<close>
    by (simp add: parse_defs js_defs)
  have pieces: \<open>split_frames corrupt_chunk =
      [''data: {"node":"A","content":"one"}''] @ ''data: {oops'' #
      [''data: {"node":"B","content":"two"}'', []]\<close>
    by (simp add: corrupt_chunk_def chunk_of_def delimiter_def split_frames_def)
  from malformed_frame_is_dropped
      [where parse = json_parse and bad = \<open>''data: {oops''\<close> and chunk = corrupt_chunk
         and pre = \<open>[''data: {"node":"A","content":"one"}'']\<close>
         and post = \<open>[''data: {"node":"B","content":"two"}'', []]\<close>
         and before = "[]" and after = "[]"
         and st = "initial_threaded 0" and c = initial_console, OF bad pieces]
  show ?thesis
    by (simp add: stream_defs js_defs parse_defs initial_console_def initial_threaded_def)
qed

subsection \<open>Frames and chunk boundaries\<close>




subsection \<open>Submitting\<close>

text \<open>
  \<^bold>\<open>C7\<close>, as the code has it.  For an input that is not empty (\<^verbatim>\<open>onRun\<close>), respectively not
  blank (\<^verbatim>\<open>handleSubmit\<close>, which tests \<^verbatim>\<open>input.trim()\<close>), the user's step is appended before
  the request is issued: the request leaves from the state that holds the step.  If the
  request is rejected, the function ends in that state.  If a read is rejected after some
  chunks, the steps are the earlier steps, the user's step and what the chunks appended,
  the same steps as when the stream closes after these chunks.  Whatever the answer, the
  handler sends exactly one request.  (The code keeps no \<^verbatim>\<open>isBusy\<close> flag.)
\<close>

theorem submit_keeps_steps:
  assumes "val \<noteq> []" and "\<not> blank (input c)"
  shows
    "onRun_begin val st =
       Some (st\<lparr>messages := messages st @ [step_of (Str ''user'') (Str val) ''user'']\<rparr>,
             Obj [(''input'', Str val), (''threadId'', Str (currentThreadId st))]) \<and>
     onRun parse val Rejected st =
       (st\<lparr>messages := messages st @ [step_of (Str ''user'') (Str val) ''user'']\<rparr>,
        [Obj [(''input'', Str val), (''threadId'', Str (currentThreadId st))]]) \<and>
     (\<exists>more. messages (fst (onRun parse val (Body chunks Broken) st)) =
        messages st @ [step_of (Str ''user'') (Str val) ''user''] @ more) \<and>
     messages (fst (onRun parse val (Body chunks Broken) st)) =
       messages (fst (onRun parse val (Body chunks Closed) st)) \<and>
     snd (onRun parse val resp st) =
       [Obj [(''input'', Str val), (''threadId'', Str (currentThreadId st))]] \<and>
     handleSubmit_begin c =
       Some (c\<lparr>input := [],
               messages := messages c @
                 [Obj [(''role'', Str ''user''), (''content'', Str (input c))]]\<rparr>,
             Obj [(''input'', Str (input c))]) \<and>
     handleSubmit parse Rejected c =
       (c\<lparr>input := [],
          messages := messages c @
            [Obj [(''role'', Str ''user''), (''content'', Str (input c))]]\<rparr>,
        [Obj [(''input'', Str (input c))]]) \<and>
     (\<exists>more. messages (fst (handleSubmit parse (Body chunks Broken) c)) =
        messages c @ [Obj [(''role'', Str ''user''), (''content'', Str (input c))]] @ more) \<and>
     messages (fst (handleSubmit parse (Body chunks Broken) c)) =
       messages (fst (handleSubmit parse (Body chunks Closed) c)) \<and>
     snd (handleSubmit parse resp c) = [Obj [(''input'', Str (input c))]]"
proof -
  let ?st1 = "st\<lparr>messages := messages st @ [step_of (Str ''user'') (Str val) ''user'']\<rparr>"
  let ?c1 = "c\<lparr>input := [],
               messages := messages c @
                 [Obj [(''role'', Str ''user''), (''content'', Str (input c))]]\<rparr>"
  obtain m1 where "messages (onRun_read parse chunks ?st1) = messages ?st1 @ m1"
    using onRun_read_appends by blast
  then have run: "\<exists>more. messages (fst (onRun parse val (Body chunks Broken) st)) =
        messages st @ [step_of (Str ''user'') (Str val) ''user''] @ more"
    using assms(1) by (simp add: onRun_def onRun_begin_def onRun_stream_def)
  obtain m2 where "messages (handleSubmit_read parse chunks ?c1) = messages ?c1 @ m2"
    using handleSubmit_read_appends by blast
  then have sub: "\<exists>more. messages (fst (handleSubmit parse (Body chunks Broken) c)) =
        messages c @ [Obj [(''role'', Str ''user''), (''content'', Str (input c))]] @ more"
    using assms(2) by (simp add: handleSubmit_def handleSubmit_begin_def handleSubmit_stream_def)
  from assms run sub show ?thesis
    by (simp add: onRun_def onRun_begin_def onRun_stream_def
        handleSubmit_def handleSubmit_begin_def handleSubmit_stream_def)
qed

text \<open>An instance: the input \<open>hi\<close>, and a stream that breaks after one chunk with one
  frame.\<close>

theorem submit_keeps_steps_witness:
  \<open>onRun json_parse ''hi'' Rejected (initial_threaded 0) =
     ((initial_threaded 0)\<lparr>messages := [step_of (Str ''user'') (Str ''hi'') ''user'']\<rparr>,
      [Obj [(''input'', Str ''hi''), (''threadId'', Str ''debug-0'')]]) \<and>
   onRun json_parse ''hi'' (Body [chunk_of [whole_frame]] Broken) (initial_threaded 0) =
     ((initial_threaded 0)\<lparr>activeNode := Str ''A'',
         messages := [step_of (Str ''user'') (Str ''hi'') ''user'',
                      step_of (Str ''A'') (Str ''hello'') ''assistant'']\<rparr>,
      [Obj [(''input'', Str ''hi''), (''threadId'', Str ''debug-0'')]]) \<and>
   handleSubmit json_parse Rejected (initial_console\<lparr>input := ''hi''\<rparr>) =
     (initial_console\<lparr>messages := [Obj [(''role'', Str ''user''), (''content'', Str ''hi'')]]\<rparr>,
      [Obj [(''input'', Str ''hi'')]])\<close>
proof -
  have val: "''hi'' \<noteq> []"
    by simp
  have inp: "\<not> blank (input (initial_console\<lparr>input := ''hi''\<rparr>))"
    by (simp add: blank_def is_space_def)
  from submit_keeps_steps
      [where parse = json_parse and st = "initial_threaded 0"
         and c = "initial_console\<lparr>input := ''hi''\<rparr>" and chunks = "[chunk_of [whole_frame]]"
         and resp = Rejected, OF val inp]
  show ?thesis
    by (simp add: whole_frame_def initial_console_def initial_threaded_def
        stream_defs js_defs parse_defs)
qed

text \<open>\<^bold>\<open>C7\<close> as stated fails for \<^verbatim>\<open>handleSubmit\<close>: an input of one space is not empty, and the
  handler returns before it appends a step or sends a request.\<close>

theorem handleSubmit_ignores_blank_input:
  "input blank_console \<noteq> [] \<and>
   handleSubmit json_parse (Body [] Closed) blank_console = (blank_console, [])"
  by (simp add: blank_console_def initial_console_def handleSubmit_def handleSubmit_begin_def
      blank_def is_space_def)

subsection \<open>Classifying and rendering updates\<close>

lemma get_prop_lookup:
  "m \<noteq> Null \<Longrightarrow> m \<noteq> Undefined \<Longrightarrow> get_prop m k = Inr (lookup m k)"
  by (cases m) (simp_all add: lookup_def field_def)

lemma optional_content_lookup: "optional_content k = Inr (lookup k ''content'')"
  by (cases k) (simp_all add: optional_content_def lookup_def field_def)

text \<open>An array whose first element is \<^verbatim>\<open>null\<close> ends the classification with a
  \<^verbatim>\<open>TypeError\<close> (\<^verbatim>\<open>value[0].content\<close>), and so does a \<^verbatim>\<open>null\<close> item of a message list when its
  text is extracted (\<^verbatim>\<open>m.content\<close>).\<close>

lemma classify_null_head: "classify (Arr (Null # ms)) = Inl TypeError"
  by (simp add: classify_def isMessageList_def bind_e_def)

lemma render_update_null_item:
  "render_update (k, Arr [Obj [(''content'', Str ''a'')], Null]) = Inl TypeError"
  by (simp add: render_update_def isMessageList_def message_text_def optional_content_def
      bind_e_def js_or_def)

text \<open>
  \<^bold>\<open>C2\<close>, as the code has it.  For every value that is not an array with a first element
  \<^verbatim>\<open>null\<close>, the classification yields exactly one shape and no error: a non-empty array is a
  MessageSequence iff its first element has a truthy \<^verbatim>\<open>content\<close> or a truthy \<^verbatim>\<open>kwargs\<close>,
  and StructuredData otherwise; a string is PlainText; everything else, the empty array
  included, is StructuredData.
\<close>

theorem classify_by_truthy_fields:
  assumes "first_item v \<noteq> Some Null" and "first_item v \<noteq> Some Undefined"
  shows "classify v =
     Inr (case first_item v of
            Some m \<Rightarrow>
              if truthy (lookup m ''content'') \<or> truthy (lookup m ''kwargs'')
              then MessageSequence else StructuredData
          | None \<Rightarrow> (case v of Str s \<Rightarrow> PlainText | _ \<Rightarrow> StructuredData))"
proof (cases "first_item v")
  case None
  then have "isMessageList v = Inr False"
    by (auto simp: first_item_def isMessageList_def split: jsval.splits list.splits)
  with None show ?thesis by (simp add: classify_def bind_e_def)
next
  case (Some m)
  then obtain ms where v: "v = Arr (m # ms)"
    by (auto simp: first_item_def split: jsval.splits list.splits)
  from Some assms have "m \<noteq> Null" "m \<noteq> Undefined" by auto
  then have "isMessageList v = Inr (truthy (lookup m ''content'') \<or> truthy (lookup m ''kwargs''))"
    by (simp add: v isMessageList_def get_prop_lookup bind_e_def js_or_def)
  with Some v show ?thesis by (simp add: classify_def bind_e_def)
qed

text \<open>The four payloads of the specification: \<^verbatim>\<open>[{content:"hi"}]\<close>, \<^verbatim>\<open>"hi"\<close>,
  \<^verbatim>\<open>{"a":1}\<close> and \<^verbatim>\<open>[]\<close>.\<close>

theorem classify_by_truthy_fields_witness:
  "classify (Arr [Obj [(''content'', Str ''hi'')]]) = Inr MessageSequence \<and>
   classify (Str ''hi'') = Inr PlainText \<and>
   classify (Obj [(''a'', Num 1)]) = Inr StructuredData \<and>
   classify (Arr []) = Inr StructuredData"
  using classify_by_truthy_fields [of "Arr [Obj [(''content'', Str ''hi'')]]"]
        classify_by_truthy_fields [of "Str ''hi''"]
        classify_by_truthy_fields [of "Obj [(''a'', Num 1)]"]
        classify_by_truthy_fields [of "Arr []"]
  by (simp add: first_item_def lookup_def field_def)

text \<open>\<^bold>\<open>C2\<close> as stated fails: \<^verbatim>\<open>[{kwargs: {}}]\<close> exposes neither \<^verbatim>\<open>content\<close> nor
  \<^verbatim>\<open>kwargs.content\<close> and is classified as a MessageSequence, and \<^verbatim>\<open>[{content: ""}]\<close> exposes
  \<^verbatim>\<open>content\<close> and is classified as StructuredData.\<close>

theorem classify_differs_from_specification:
  "classify (Arr [Obj [(''kwargs'', Obj [])]]) = Inr MessageSequence \<and>
   spec_classify (Arr [Obj [(''kwargs'', Obj [])]]) = StructuredData \<and>
   classify (Arr [Obj [(''content'', Str [])]]) = Inr StructuredData \<and>
   spec_classify (Arr [Obj [(''content'', Str [])]]) = MessageSequence"
  by (simp add: classify_def isMessageList_def bind_e_def js_or_def spec_classify_def
      exposes_content_def has_field_def field_def)

text \<open>
  \<^bold>\<open>C9\<close>, as the code has it.  For a sequence without \<^verbatim>\<open>null\<close> items the extraction yields a
  text for every item and no error, whichever fields an item lacks and whatever kind of
  value it is: the item's \<^verbatim>\<open>content\<close> when that is truthy, otherwise its \<^verbatim>\<open>kwargs.content\<close>
  when that is truthy, otherwise the empty text.
\<close>

theorem message_text_by_truthiness:
  assumes "\<forall>m\<in>set ms. m \<noteq> Null \<and> m \<noteq> Undefined"
  shows "map_e message_text ms =
     Inr (map (\<lambda>m. if truthy (lookup m ''content'') then lookup m ''content''
                   else if truthy (lookup (lookup m ''kwargs'') ''content'')
                        then lookup (lookup m ''kwargs'') ''content''
                        else Str []) ms)"
  using assms
proof (induction ms)
  case Nil
  then show ?case by simp
next
  case (Cons m ms)
  then have "m \<noteq> Null" "m \<noteq> Undefined" by auto
  then have "message_text m =
     Inr (if truthy (lookup m ''content'') then lookup m ''content''
          else if truthy (lookup (lookup m ''kwargs'') ''content'')
               then lookup (lookup m ''kwargs'') ''content''
               else Str [])"
    by (simp add: message_text_def get_prop_lookup optional_content_lookup bind_e_def js_or_def)
  with Cons show ?case by simp
qed

text \<open>An instance: items with \<^verbatim>\<open>content\<close>, with \<^verbatim>\<open>kwargs.content\<close> only, with neither, with
  a \<^verbatim>\<open>kwargs\<close> that is \<^verbatim>\<open>null\<close>, and items that are no objects.\<close>

theorem message_text_by_truthiness_witness:
  "map_e message_text
     [Obj [(''content'', Str ''a'')],
      Obj [(''kwargs'', Obj [(''content'', Str ''b'')])],
      Obj [],
      Obj [(''kwargs'', Null)],
      Str ''c'',
      Num 3] =
   Inr [Str ''a'', Str ''b'', Str [], Str [], Str [], Str []]"
  using message_text_by_truthiness
    [of "[Obj [(''content'', Str ''a'')],
          Obj [(''kwargs'', Obj [(''content'', Str ''b'')])],
          Obj [],
          Obj [(''kwargs'', Null)],
          Str ''c'',
          Num 3]"]
  by (simp add: lookup_def field_def)

text \<open>\<^bold>\<open>C9\<close> as stated fails: an item whose \<^verbatim>\<open>content\<close> is present and empty is rendered
  with its \<^verbatim>\<open>kwargs.content\<close>.\<close>

theorem message_text_differs_from_specification:
  "message_text empty_content_item = Inr (Str ''x'') \<and>
   spec_message_text empty_content_item = Str []"
  by (simp add: empty_content_item_def message_text_def optional_content_def bind_e_def
      js_or_def spec_message_text_def field_def)

end
